theory Spec2Isabelle
  imports Main "HOL-Library.Sublist"
begin

section \<open>Python values and the world outside the scripts\<close>

text \<open>
  The three scripts (\<^verbatim>\<open>setup_pipeline.py\<close>, \<^verbatim>\<open>setup_gcp_looker.py\<close>, \<^verbatim>\<open>quick_setup.py\<close>)
  are modelled as state-passing functions. A Python \<^verbatim>\<open>str\<close> is a \<^typ>\<open>string\<close>; the
  status glyphs the scripts print in front of their messages lie outside the character
  range of \<^typ>\<open>char\<close> and are written as ASCII tags.
\<close>

abbreviation (input) glyph_ok :: string where "glyph_ok \<equiv> ''[ok]''"
abbreviation (input) glyph_fail :: string where "glyph_fail \<equiv> ''[x]''"
abbreviation (input) glyph_busy :: string where "glyph_busy \<equiv> ''[~]''"
abbreviation (input) glyph_info :: string where "glyph_info \<equiv> ''[i]''"
abbreviation (input) glyph_warn :: string where "glyph_warn \<equiv> ''[!]''"
abbreviation (input) glyph_inbox :: string where "glyph_inbox \<equiv> ''[inbox]''"
abbreviation (input) glyph_rocket :: string where "glyph_rocket \<equiv> ''[rocket]''"
abbreviation (input) glyph_chart :: string where "glyph_chart \<equiv> ''[chart]''"
abbreviation (input) glyph_lens :: string where "glyph_lens \<equiv> ''[lens]''"
abbreviation (input) glyph_hospital :: string where "glyph_hospital \<equiv> ''[hospital]''"
abbreviation (input) glyph_party :: string where "glyph_party \<equiv> ''[party]''"
abbreviation (input) glyph_clipboard :: string where "glyph_clipboard \<equiv> ''[clipboard]''"
abbreviation (input) glyph_wrench :: string where "glyph_wrench \<equiv> ''[wrench]''"

text \<open>
  A command is either one shell line (\<^verbatim>\<open>subprocess.run(command, shell=True)\<close>) or an
  argument vector (\<^verbatim>\<open>subprocess.run([...])\<close>).
\<close>

datatype command = Shell string | Argv "string list"

text \<open>
  The exceptions that occur. \<open>CalledProcessError\<close> carries what Python's object carries:
  return code, command, and the captured streams (\<^verbatim>\<open>None\<close> when the stream was not
  captured).
\<close>

datatype exn =
    CalledProcessError int command "string option" "string option"
  | FileNotFoundError string
  | FileExistsError string
  | IsADirectoryError string
  | NotADirectoryError string
  | OtherOSError string
  | HTTPError string
  | RequestException string
  | EOFError
  | SystemExit int

text \<open>
  What one call of \<^verbatim>\<open>subprocess.run\<close> meets: a child that ends with a return code and
  its two streams, or no child at all (the program is not installed, or another error of
  the operating system), which Python raises as an \<^verbatim>\<open>OSError\<close>.
\<close>

datatype launch_error = ProgramNotFound string | OtherLaunchError string

datatype proc_outcome =
    Completed int string string
  | NotLaunched launch_error

fun exn_of_launch :: "launch_error \<Rightarrow> exn" where
  "exn_of_launch (ProgramNotFound f) = FileNotFoundError f"
| "exn_of_launch (OtherLaunchError m) = OtherOSError m"

datatype node = File string | Dir

type_synonym filesystem = "string \<rightharpoonup> node"

text \<open>
  The collaborators outside the scripts (the cloud service, the transformation tool, the
  package installer) are a parameter: a function from the command, the working directory
  and the state of the outside (the files and a state \<open>'w\<close> of its own) to an outcome
  and a new outside state.
\<close>

type_synonym 'w executor =
  "command \<Rightarrow> string \<Rightarrow> filesystem \<times> 'w \<Rightarrow> proc_outcome \<times> (filesystem \<times> 'w)"

record 'w state =
  files :: filesystem
  workdir :: string
  outside :: 'w
  keyboard :: "string list"
  printed :: "string list"
  spawned :: "(command \<times> proc_outcome) list"
  probed :: "string list"

type_synonym ('a, 'w) prog = "'w state \<Rightarrow> (exn + 'a) \<times> 'w state"

definition print :: "string \<Rightarrow> 'w state \<Rightarrow> 'w state" where
  "print line s = s\<lparr>printed := printed s @ [line]\<rparr>"

text \<open>
  \<^verbatim>\<open>subprocess.run(cmd, check=True, ...)\<close>: the child runs once; a non-zero return code
  is raised as \<open>CalledProcessError\<close>. Every call is recorded in \<open>spawned\<close> with what
  the outside answered. With \<open>capture\<close> the streams are kept, otherwise
  they are \<^verbatim>\<open>None\<close>. The result on success is the pair of streams of the
  \<^verbatim>\<open>CompletedProcess\<close>.
\<close>

definition subprocess_run ::
  "'w executor \<Rightarrow> command \<Rightarrow> bool \<Rightarrow> (string option \<times> string option, 'w) prog" where
  "subprocess_run ex cmd capture s =
    (case ex cmd (workdir s) (files s, outside s) of
      (r, (fs', w')) \<Rightarrow>
        (let s' = s\<lparr>files := fs', outside := w', spawned := spawned s @ [(cmd, r)]\<rparr>
         in case r of
              NotLaunched e \<Rightarrow> (Inl (exn_of_launch e), s')
            | Completed rc so se \<Rightarrow>
                (let captured_out = (if capture then Some so else None);
                     captured_err = (if capture then Some se else None)
                 in if rc \<noteq> 0
                    then (Inl (CalledProcessError rc cmd captured_out captured_err), s')
                    else (Inr (captured_out, captured_err), s'))))"

text \<open>An f-string shows \<^verbatim>\<open>None\<close> as the text \<^verbatim>\<open>None\<close>.\<close>

fun format_opt :: "string option \<Rightarrow> string" where
  "format_opt None = ''None''"
| "format_opt (Some t) = t"


subsection \<open>Sequencing\<close>

definition return_prog :: "'a \<Rightarrow> ('a, 'w) prog" where
  "return_prog v s = (Inr v, s)"

definition raise_prog :: "exn \<Rightarrow> ('a, 'w) prog" where
  "raise_prog e s = (Inl e, s)"

definition bind_prog :: "('a, 'w) prog \<Rightarrow> ('a \<Rightarrow> ('b, 'w) prog) \<Rightarrow> ('b, 'w) prog" where
  "bind_prog m f s = (case m s of (Inl e, s') \<Rightarrow> (Inl e, s') | (Inr v, s') \<Rightarrow> f v s')"

definition say :: "string \<Rightarrow> (unit, 'w) prog" where
  "say line s = (Inr (), print line s)"

text \<open>\<^verbatim>\<open>except Exception\<close> catches everything but \<open>SystemExit\<close>.\<close>

fun is_Exception :: "exn \<Rightarrow> bool" where
  "is_Exception (SystemExit n) = False"
| "is_Exception e = True"

subsection \<open>Numbers and \<^verbatim>\<open>repr\<close>\<close>

fun str_nat :: "nat \<Rightarrow> string" where
  "str_nat n =
    (if n < 10 then [''0123456789'' ! n]
     else str_nat (n div 10) @ [''0123456789'' ! (n mod 10)])"

declare str_nat.simps [simp del]

definition str_int :: "int \<Rightarrow> string" where
  "str_int i = (if i < 0 then ''-'' @ str_nat (nat (- i)) else str_nat (nat i))"

definition hex2 :: "nat \<Rightarrow> string" where
  "hex2 n = [''0123456789abcdef'' ! (n div 16 mod 16), ''0123456789abcdef'' ! (n mod 16)]"

text \<open>
  \<^verbatim>\<open>repr\<close> of a string whose characters are below 256: the quote is \<^verbatim>\<open>'\<close> unless
  the string holds a \<^verbatim>\<open>'\<close> and no \<^verbatim>\<open>"\<close>; backslash, the quote, tab, newline and
  carriage return are escaped, other unprintable characters are written \<^verbatim>\<open>\xNN\<close>.
\<close>

definition py_printable :: "char \<Rightarrow> bool" where
  "py_printable c =
    (let n = (of_char c :: nat)
     in (32 \<le> n \<and> n < 127) \<or> (161 \<le> n \<and> n \<noteq> 173))"

definition repr_quote :: "string \<Rightarrow> char" where
  "repr_quote t = (if CHR 0x27 \<in> set t \<and> CHR 0x22 \<notin> set t then CHR 0x22 else CHR 0x27)"

definition repr_char :: "char \<Rightarrow> char \<Rightarrow> string" where
  "repr_char q c =
    (if c = CHR 0x5C then [CHR 0x5C, CHR 0x5C]
     else if c = q then [CHR 0x5C, q]
     else if c = CHR 0x09 then [CHR 0x5C, CHR ''t'']
     else if c = CHR 0x0A then [CHR 0x5C, CHR ''n'']
     else if c = CHR 0x0D then [CHR 0x5C, CHR ''r'']
     else if \<not> py_printable c then [CHR 0x5C, CHR ''x''] @ hex2 (of_char c)
     else [c])"

definition py_repr :: "string \<Rightarrow> string" where
  "py_repr t = (let q = repr_quote t in [q] @ concat (map (repr_char q) t) @ [q])"

fun join_with :: "string \<Rightarrow> string list \<Rightarrow> string" where
  "join_with sep [] = []"
| "join_with sep [x] = x"
| "join_with sep (x # y # ys) = x @ sep @ join_with sep (y # ys)"

definition repr_list :: "string list \<Rightarrow> string" where
  "repr_list xs = ''['' @ join_with '', '' (map py_repr xs) @ '']''"

text \<open>\<^verbatim>\<open>'%s' % cmd\<close>: a string as it is, a list by its \<^verbatim>\<open>repr\<close>.\<close>

fun format_command :: "command \<Rightarrow> string" where
  "format_command (Shell c) = c"
| "format_command (Argv xs) = repr_list xs"

text \<open>The names of \<^verbatim>\<open>signal.Signals\<close> (Linux numbering).\<close>

definition signal_names :: "(nat \<times> string) list" where
  "signal_names =
    [(1, ''SIGHUP''), (2, ''SIGINT''), (3, ''SIGQUIT''), (4, ''SIGILL''), (5, ''SIGTRAP''),
     (6, ''SIGABRT''), (7, ''SIGBUS''), (8, ''SIGFPE''), (9, ''SIGKILL''), (10, ''SIGUSR1''),
     (11, ''SIGSEGV''), (12, ''SIGUSR2''), (13, ''SIGPIPE''), (14, ''SIGALRM''),
     (15, ''SIGTERM''), (16, ''SIGSTKFLT''), (17, ''SIGCHLD''), (18, ''SIGCONT''),
     (19, ''SIGSTOP''), (20, ''SIGTSTP''), (21, ''SIGTTIN''), (22, ''SIGTTOU''),
     (23, ''SIGURG''), (24, ''SIGXCPU''), (25, ''SIGXFSZ''), (26, ''SIGVTALRM''),
     (27, ''SIGPROF''), (28, ''SIGWINCH''), (29, ''SIGIO''), (30, ''SIGPWR''),
     (31, ''SIGSYS''), (34, ''SIGRTMIN''), (64, ''SIGRTMAX'')]"

text \<open>
  \<^verbatim>\<open>str(e)\<close>. For \<open>CalledProcessError\<close> it is built from the command and the return
  code alone (\<^verbatim>\<open>CalledProcessError.__str__\<close>); the captured streams are not part of it.
\<close>

fun str_exn :: "exn \<Rightarrow> string" where
  "str_exn (CalledProcessError rc cmd so se) =
    (if rc < 0
     then (case map_of signal_names (nat (- rc)) of
             Some name \<Rightarrow>
               ''Command '' @ [CHR 0x27] @ format_command cmd @ [CHR 0x27] @ '' died with <Signals.''
                 @ name @ '': '' @ str_nat (nat (- rc)) @ ''>.''
           | None \<Rightarrow>
               ''Command '' @ [CHR 0x27] @ format_command cmd @ [CHR 0x27]
                 @ '' died with unknown signal '' @ str_nat (nat (- rc)) @ ''.'')
     else ''Command '' @ [CHR 0x27] @ format_command cmd @ [CHR 0x27]
            @ '' returned non-zero exit status '' @ str_int rc @ ''.'')"
| "str_exn (FileNotFoundError f) = ''[Errno 2] No such file or directory: '' @ py_repr f"
| "str_exn (FileExistsError f) = ''[Errno 17] File exists: '' @ py_repr f"
| "str_exn (IsADirectoryError f) = ''[Errno 21] Is a directory: '' @ py_repr f"
| "str_exn (NotADirectoryError f) = ''[Errno 20] Not a directory: '' @ py_repr f"
| "str_exn (OtherOSError m) = m"
| "str_exn (HTTPError m) = m"
| "str_exn (RequestException m) = m"
| "str_exn EOFError = ''EOF when reading a line''"
| "str_exn (SystemExit n) = str_int n"

subsection \<open>Files\<close>

text \<open>
  A path names a node by its literal text (no normalisation of \<^verbatim>\<open>.\<close>, \<^verbatim>\<open>..\<close> or
  repeated slashes, which the scripts' paths do not contain); the empty path names nothing.
\<close>

definition node_at :: "filesystem \<Rightarrow> string \<Rightarrow> node option" where
  "node_at fs p = (if p = [] then None else fs p)"

text \<open>\<^verbatim>\<open>os.path.exists\<close> / \<^verbatim>\<open>Path.exists\<close>; the path looked at is recorded.\<close>

definition path_exists :: "string \<Rightarrow> (bool, 'w) prog" where
  "path_exists p s = (Inr (node_at (files s) p \<noteq> None), s\<lparr>probed := probed s @ [p]\<rparr>)"

definition rstrip_char :: "char \<Rightarrow> string \<Rightarrow> string" where
  "rstrip_char c p = rev (dropWhile (\<lambda>x. x = c) (rev p))"

text \<open>\<^verbatim>\<open>posixpath.split\<close> and \<^verbatim>\<open>posixpath.dirname\<close>.\<close>

definition posix_split :: "string \<Rightarrow> string \<times> string" where
  "posix_split p =
    (let head = rev (dropWhile (\<lambda>x. x \<noteq> CHR ''/'') (rev p));
         tail = rev (takeWhile (\<lambda>x. x \<noteq> CHR ''/'') (rev p))
     in (if head \<noteq> [] \<and> head \<noteq> replicate (length head) CHR ''/''
         then rstrip_char CHR ''/'' head else head, tail))"

definition posix_dirname :: "string \<Rightarrow> string" where
  "posix_dirname p = fst (posix_split p)"

definition os_mkdir :: "string \<Rightarrow> filesystem \<Rightarrow> exn option \<times> filesystem" where
  "os_mkdir p fs =
    (if p = [] then (Some (FileNotFoundError p), fs)
     else if node_at fs p \<noteq> None then (Some (FileExistsError p), fs)
     else (let d = posix_dirname p
           in if d = [] \<or> d = replicate (length d) CHR ''/'' then (None, fs(p \<mapsto> Dir))
              else (case node_at fs d of
                      None \<Rightarrow> (Some (FileNotFoundError p), fs)
                    | Some (File c) \<Rightarrow> (Some (NotADirectoryError p), fs)
                    | Some Dir \<Rightarrow> (None, fs(p \<mapsto> Dir)))))"

text \<open>The last step of \<^verbatim>\<open>os.makedirs(name, exist_ok=True)\<close>: an error of
  \<^verbatim>\<open>mkdir\<close> is dropped only when \<open>name\<close> is a directory.\<close>

definition mkdir_exist_ok :: "string \<Rightarrow> filesystem \<Rightarrow> exn option \<times> filesystem" where
  "mkdir_exist_ok name fs =
    (case os_mkdir name fs of
       (Some e, fs') \<Rightarrow> (if node_at fs' name = Some Dir then (None, fs') else (Some e, fs'))
     | (None, fs') \<Rightarrow> (None, fs'))"

lemma posix_split_shorter:
  "snd (posix_split p) \<noteq> [] \<Longrightarrow> length (fst (posix_split p)) < length p"
  "length (fst (posix_split p)) \<le> length p"
proof -
  define h where "h = rev (dropWhile (\<lambda>x. x \<noteq> CHR ''/'') (rev p))"
  define t where "t = rev (takeWhile (\<lambda>x. x \<noteq> CHR ''/'') (rev p))"
  have a: "length h + length t = length p"
    unfolding h_def t_def
    by (metis add.commute length_append length_rev takeWhile_dropWhile_id)
  have b: "length (rstrip_char CHR ''/'' h) \<le> length h"
    using length_dropWhile_le[of "\<lambda>x. x = CHR ''/''" "rev h"] by (simp add: rstrip_char_def)
  have c: "length (fst (posix_split p)) \<le> length h" and d: "snd (posix_split p) = t"
    using b by (simp_all add: posix_split_def Let_def h_def t_def)
  show "length (fst (posix_split p)) \<le> length p"
    using a c by linarith
  show "length (fst (posix_split p)) < length p" if "snd (posix_split p) \<noteq> []"
  proof -
    from that d have "0 < length t" by simp
    with a c show ?thesis by linarith
  qed
qed

text \<open>\<^verbatim>\<open>os.makedirs(name, exist_ok=True)\<close>, after the library's code: the missing
  ancestors first, then \<open>name\<close> itself.\<close>

function makedirs :: "string \<Rightarrow> filesystem \<Rightarrow> exn option \<times> filesystem" where
  "makedirs name fs =
    (let ht = (if snd (posix_split name) = [] then posix_split (fst (posix_split name))
               else posix_split name)
     in if fst ht \<noteq> [] \<and> snd ht \<noteq> [] \<and> node_at fs (fst ht) = None
        then (case makedirs (fst ht) fs of
                (Some (FileExistsError f), fs1) \<Rightarrow>
                  (if snd ht = ''.'' then (None, fs1) else mkdir_exist_ok name fs1)
              | (Some e, fs1) \<Rightarrow> (Some e, fs1)
              | (None, fs1) \<Rightarrow>
                  (if snd ht = ''.'' then (None, fs1) else mkdir_exist_ok name fs1))
        else mkdir_exist_ok name fs)"
  by pat_completeness auto
termination
proof (relation "measure (\<lambda>(name, fs). length name)")
  show "wf (measure (\<lambda>(name, fs). length name))" by simp
next
  fix name :: string and fs :: filesystem and ht
  assume ht: "ht = (if snd (posix_split name) = [] then posix_split (fst (posix_split name))
                    else posix_split name)"
    and c: "fst ht \<noteq> [] \<and> snd ht \<noteq> [] \<and> node_at fs (fst ht) = None"
  have "length (fst ht) < length name"
  proof (cases "snd (posix_split name) = []")
    case True
    with ht c have "length (fst ht) < length (fst (posix_split name))"
      using posix_split_shorter(1)[of "fst (posix_split name)"] by simp
    with posix_split_shorter(2)[of name] show ?thesis by simp
  next
    case False
    with ht c show ?thesis using posix_split_shorter(1)[of name] by simp
  qed
  then show "((fst ht, fs), name, fs) \<in> measure (\<lambda>(name, fs). length name)" by simp
qed

declare makedirs.simps [simp del]

text \<open>\<^verbatim>\<open>open(p, "w")\<close> followed by one \<^verbatim>\<open>write\<close>, and \<^verbatim>\<open>open(p, "r")\<close> followed
  by \<^verbatim>\<open>read\<close>.\<close>

definition write_file :: "string \<Rightarrow> string \<Rightarrow> filesystem \<Rightarrow> exn option \<times> filesystem" where
  "write_file p text fs =
    (if p = [] then (Some (FileNotFoundError p), fs)
     else (case node_at fs p of
             Some Dir \<Rightarrow> (Some (IsADirectoryError p), fs)
           | Some (File old) \<Rightarrow> (None, fs(p \<mapsto> File text))
           | None \<Rightarrow>
               (let d = posix_dirname p
                in if d = [] \<or> d = replicate (length d) CHR ''/''
                   then (None, fs(p \<mapsto> File text))
                   else (case node_at fs d of
                           None \<Rightarrow> (Some (FileNotFoundError p), fs)
                         | Some (File c) \<Rightarrow> (Some (NotADirectoryError p), fs)
                         | Some Dir \<Rightarrow> (None, fs(p \<mapsto> File text))))))"

definition read_file :: "string \<Rightarrow> filesystem \<Rightarrow> exn + string" where
  "read_file p fs =
    (case node_at fs p of
       None \<Rightarrow> Inl (FileNotFoundError p)
     | Some Dir \<Rightarrow> Inl (IsADirectoryError p)
     | Some (File c) \<Rightarrow> Inr c)"

text \<open>The two file operations as steps of a script.\<close>

definition do_makedirs :: "string \<Rightarrow> (unit, 'w) prog" where
  "do_makedirs name s =
    (case makedirs name (files s) of
       (Some e, fs') \<Rightarrow> (Inl e, s\<lparr>files := fs'\<rparr>)
     | (None, fs') \<Rightarrow> (Inr (), s\<lparr>files := fs'\<rparr>))"

definition do_write :: "string \<Rightarrow> string \<Rightarrow> (unit, 'w) prog" where
  "do_write p text s =
    (case write_file p text (files s) of
       (Some e, fs') \<Rightarrow> (Inl e, s\<lparr>files := fs'\<rparr>)
     | (None, fs') \<Rightarrow> (Inr (), s\<lparr>files := fs'\<rparr>))"

definition do_read :: "string \<Rightarrow> (string, 'w) prog" where
  "do_read p s = (read_file p (files s), s)"

section \<open>\<^verbatim>\<open>setup_pipeline.py\<close>\<close>

subsection \<open>\<^verbatim>\<open>run_command\<close>\<close>

definition run_command :: "'w executor \<Rightarrow> string \<Rightarrow> string \<Rightarrow> (string option, 'w) prog" where
  "run_command ex command description s =
    (let s1 = print (glyph_busy @ '' '' @ description @ ''...'') s
     in case subprocess_run ex (Shell command) True s1 of
          (Inr (so, se), s2) \<Rightarrow>
            (Inr so, print (glyph_ok @ '' '' @ description @ '' completed successfully'') s2)
        | (Inl (CalledProcessError rc c so se), s2) \<Rightarrow>
            (Inr None, print (glyph_fail @ '' '' @ description @ '' failed: '' @ format_opt se) s2)
        | (Inl e, s2) \<Rightarrow> (Inl e, s2))"

subsection \<open>\<^verbatim>\<open>download_csv_from_github\<close>\<close>

text \<open>
  \<^verbatim>\<open>requests.get\<close> answers with a status, a reason phrase and a body, or raises;
  \<^verbatim>\<open>raise_for_status\<close> raises for a status from 400 to 599.
\<close>

datatype http_outcome =
    Response int string string
  | Unreachable string

type_synonym 'w fetcher = "string \<Rightarrow> 'w \<Rightarrow> http_outcome \<times> 'w"

definition requests_get :: "'w fetcher \<Rightarrow> string \<Rightarrow> (int \<times> string \<times> string, 'w) prog" where
  "requests_get get url s =
    (case get url (outside s) of
       (Unreachable m, w') \<Rightarrow> (Inl (RequestException m), s\<lparr>outside := w'\<rparr>)
     | (Response status reason body, w') \<Rightarrow> (Inr (status, reason, body), s\<lparr>outside := w'\<rparr>))"

definition raise_for_status :: "string \<Rightarrow> int \<Rightarrow> string \<Rightarrow> (unit, 'w) prog" where
  "raise_for_status url status reason =
    (if 400 \<le> status \<and> status < 500
     then raise_prog (HTTPError (str_int status @ '' Client Error: '' @ reason @ '' for url: '' @ url))
     else if 500 \<le> status \<and> status < 600
     then raise_prog (HTTPError (str_int status @ '' Server Error: '' @ reason @ '' for url: '' @ url))
     else return_prog ())"

definition download_csv_from_github ::
  "'w fetcher \<Rightarrow> string \<Rightarrow> string \<Rightarrow> string \<Rightarrow> (bool, 'w) prog" where
  "download_csv_from_github get repo_url file_path local_path s =
    (case bind_prog (say (glyph_inbox @ '' Downloading '' @ file_path @ '' from '' @ repo_url @ ''...'')) (\<lambda>_.
          bind_prog (requests_get get (repo_url @ ''/raw/main/'' @ file_path)) (\<lambda>(status, reason, body).
          bind_prog (raise_for_status (repo_url @ ''/raw/main/'' @ file_path) status reason) (\<lambda>_.
          bind_prog (do_makedirs (posix_dirname local_path)) (\<lambda>_.
          bind_prog (do_write local_path body) (\<lambda>_.
          bind_prog (say (glyph_ok @ '' Downloaded '' @ file_path @ '' to '' @ local_path)) (\<lambda>_.
          return_prog True)))))) s of
       (Inr b, s') \<Rightarrow> (Inr b, s')
     | (Inl e, s') \<Rightarrow>
         (if is_Exception e
          then (Inr False, print (glyph_fail @ '' Failed to download '' @ file_path @ '': '' @ str_exn e) s')
          else (Inl e, s')))"

subsection \<open>\<^verbatim>\<open>setup_environment\<close>\<close>

text \<open>The three attributes of \<^verbatim>\<open>sys\<close> the virtual-environment test reads.\<close>

record interpreter =
  sys_real_prefix :: "string option"
  sys_base_prefix :: "string option"
  sys_prefix :: string

definition setup_environment :: "'w executor \<Rightarrow> interpreter \<Rightarrow> (unit, 'w) prog" where
  "setup_environment ex py =
    bind_prog (say (glyph_rocket @ '' Setting up healthcare data pipeline environment...'')) (\<lambda>_.
    bind_prog (if sys_real_prefix py = None \<and>
                  \<not> (sys_base_prefix py \<noteq> None \<and> sys_base_prefix py \<noteq> Some (sys_prefix py))
               then say (glyph_warn @ ''  Warning: You're not in a virtual environment. Consider using one.'')
               else return_prog ()) (\<lambda>_.
    bind_prog (run_command ex ''pip install dbt-bigquery'' ''Installing dbt-bigquery'') (\<lambda>_.
    bind_prog (run_command ex ''pip install requests'' ''Installing requests'') (\<lambda>_.
    return_prog ()))))"

subsection \<open>\<^verbatim>\<open>download_sample_data\<close>\<close>

definition download_sample_data :: "(bool, 'w) prog" where
  "download_sample_data =
    bind_prog (say (glyph_chart @ '' Downloading sample healthcare data...'')) (\<lambda>_.
    bind_prog (say (glyph_info @ ''  Using sample data files already created in the project'')) (\<lambda>_.
    return_prog True))"

subsection \<open>\<^verbatim>\<open>validate_dbt_project\<close>\<close>

definition validate_dbt_project :: "(bool, 'w) prog" where
  "validate_dbt_project =
    bind_prog (say (glyph_lens @ '' Validating dbt project...'')) (\<lambda>_.
    bind_prog (path_exists ''my_project/dbt_project.yml'') (\<lambda>found_project.
    if \<not> found_project
    then bind_prog (say (glyph_fail @ '' dbt_project.yml not found'')) (\<lambda>_. return_prog False)
    else bind_prog (path_exists ''profiles.yml'') (\<lambda>found_profiles.
    if \<not> found_profiles
    then bind_prog (say (glyph_fail @ '' profiles.yml not found. Please create it with your Google Cloud credentials.''))
           (\<lambda>_. return_prog False)
    else bind_prog (say (glyph_ok @ '' dbt project validation passed'')) (\<lambda>_. return_prog True))))"

subsection \<open>\<^verbatim>\<open>run_dbt_pipeline\<close>\<close>

text \<open>\<^verbatim>\<open>os.chdir\<close>: the target must be a directory.\<close>

definition os_chdir :: "string \<Rightarrow> (unit, 'w) prog" where
  "os_chdir p s =
    (case node_at (files s) p of
       None \<Rightarrow> (Inl (FileNotFoundError p), s)
     | Some (File c) \<Rightarrow> (Inl (NotADirectoryError p), s)
     | Some Dir \<Rightarrow>
         (Inr (), s\<lparr>workdir := (if prefix ''/'' p then p else workdir s @ ''/'' @ p)\<rparr>))"

text \<open>The \<^verbatim>\<open>for\<close> loop over the \<open>(command, description)\<close> pairs.\<close>

fun run_steps :: "'w executor \<Rightarrow> (string \<times> string) list \<Rightarrow> (bool, 'w) prog" where
  "run_steps ex [] = return_prog True"
| "run_steps ex ((command, description) # rest) =
    bind_prog (run_command ex command description) (\<lambda>result.
    if result = None
    then bind_prog (say (glyph_fail @ '' Pipeline failed at: '' @ description)) (\<lambda>_. return_prog False)
    else run_steps ex rest)"

definition commands :: "(string \<times> string) list" where
  "commands =
    [(''dbt deps'', ''Installing dbt dependencies''),
     (''dbt seed'', ''Loading CSV seed data''),
     (''dbt run'', ''Running dbt models''),
     (''dbt test'', ''Running dbt tests''),
     (''dbt docs generate'', ''Generating documentation'')]"

text \<open>The function with the list of steps as a parameter, and as the script has it.\<close>

definition run_dbt_pipeline_with :: "'w executor \<Rightarrow> (string \<times> string) list \<Rightarrow> (bool, 'w) prog" where
  "run_dbt_pipeline_with ex steps =
    bind_prog (say (glyph_busy @ '' Running dbt pipeline...'')) (\<lambda>_.
    bind_prog (os_chdir ''my_project'') (\<lambda>_.
    bind_prog (run_steps ex steps) (\<lambda>all_ok.
    if all_ok
    then bind_prog (say (glyph_ok @ '' dbt pipeline completed successfully!'')) (\<lambda>_. return_prog True)
    else return_prog False)))"

definition run_dbt_pipeline :: "'w executor \<Rightarrow> (bool, 'w) prog" where
  "run_dbt_pipeline ex = run_dbt_pipeline_with ex commands"

subsection \<open>\<^verbatim>\<open>main\<close> of \<^verbatim>\<open>setup_pipeline.py\<close>\<close>

definition main_pipeline :: "'w executor \<Rightarrow> interpreter \<Rightarrow> (unit, 'w) prog" where
  "main_pipeline ex py =
    bind_prog (say (glyph_hospital @ '' Healthcare Data Pipeline Setup'')) (\<lambda>_.
    bind_prog (say (replicate 50 CHR ''='')) (\<lambda>_.
    bind_prog (path_exists ''my_project'') (\<lambda>found.
    if \<not> found
    then bind_prog (say (glyph_fail @ '' Please run this script from the project root directory''))
           (\<lambda>_. raise_prog (SystemExit 1))
    else
    bind_prog (setup_environment ex py) (\<lambda>_.
    bind_prog validate_dbt_project (\<lambda>valid.
    if \<not> valid
    then bind_prog (say (glyph_fail @ '' Project validation failed. Please check your configuration.''))
           (\<lambda>_. raise_prog (SystemExit 1))
    else
    bind_prog download_sample_data (\<lambda>_.
    bind_prog (run_dbt_pipeline ex) (\<lambda>done.
    if done
    then bind_prog (say (''\<newline>'' @ glyph_party @ '' Healthcare data pipeline setup complete!'')) (\<lambda>_.
         bind_prog (say ''\<newline>Next steps:'') (\<lambda>_.
         bind_prog (say ''1. Update profiles.yml with your Google Cloud credentials'') (\<lambda>_.
         bind_prog (say ''2. Replace sample CSV files with your actual healthcare data'') (\<lambda>_.
         bind_prog (say ''3. Run 'dbt docs serve' to view the documentation'') (\<lambda>_.
         say ''4. Set up automated scheduling with GitHub Actions or Cloud Scheduler'')))))
    else bind_prog (say (glyph_fail @ '' Pipeline setup failed. Please check the errors above.''))
           (\<lambda>_. raise_prog (SystemExit 1)))))))))"

text \<open>
  The process exit status of \<^verbatim>\<open>python setup_pipeline.py\<close>: 0 when \<open>main\<close> returns, the
  argument of \<^verbatim>\<open>sys.exit\<close>, and 1 for an exception nobody caught (its traceback goes to
  the error stream, which is not modelled).
\<close>

definition script_pipeline :: "'w executor \<Rightarrow> interpreter \<Rightarrow> 'w state \<Rightarrow> int \<times> 'w state" where
  "script_pipeline ex py s =
    (case main_pipeline ex py s of
       (Inr u, s') \<Rightarrow> (0, s')
     | (Inl (SystemExit n), s') \<Rightarrow> (n, s')
     | (Inl e, s') \<Rightarrow> (1, s'))"

section \<open>String operations of the configuration rewriter and the prompts\<close>

text \<open>
  \<^verbatim>\<open>s.replace(old, new)\<close>: the occurrences of \<open>old\<close> are found from the left and do
  not overlap; an empty \<open>old\<close> matches before every character and at the end.
\<close>

function py_replace :: "string \<Rightarrow> string \<Rightarrow> string \<Rightarrow> string" where
  "py_replace [] old new = (if old = [] then new else [])"
| "py_replace (c # cs) old new =
    (if old = [] then new @ c # py_replace cs old new
     else if prefix old (c # cs) then new @ py_replace (drop (length old) (c # cs)) old new
     else c # py_replace cs old new)"
  by pat_completeness auto
termination
  by (relation "measure (\<lambda>(s, old, new). length s)") auto

declare py_replace.simps(2) [simp del]

text \<open>\<^verbatim>\<open>s.strip()\<close>: the whitespace characters below 256.\<close>

definition py_isspace :: "char \<Rightarrow> bool" where
  "py_isspace c =
    (let n = (of_char c :: nat)
     in (9 \<le> n \<and> n \<le> 13) \<or> (28 \<le> n \<and> n \<le> 32) \<or> n = 133 \<or> n = 160)"

definition py_strip :: "string \<Rightarrow> string" where
  "py_strip t = rev (dropWhile py_isspace (rev (dropWhile py_isspace t)))"

text \<open>\<^verbatim>\<open>input(prompt)\<close>: the prompt is written, one line is taken from the keyboard.\<close>

definition input :: "string \<Rightarrow> (string, 'w) prog" where
  "input prompt s =
    (case keyboard s of
       [] \<Rightarrow> (Inl EOFError, print prompt s)
     | line # later \<Rightarrow> (Inr line, (print prompt s)\<lparr>keyboard := later\<rparr>))"

text \<open>\<^verbatim>\<open>Path(d) / name\<close> as text.\<close>

definition path_join :: "string \<Rightarrow> string \<Rightarrow> string" where
  "path_join d name =
    (if d = ''.'' \<or> d = [] then name
     else if suffix ''/'' d then d @ name
     else d @ ''/'' @ name)"

section \<open>\<^verbatim>\<open>setup_gcp_looker.py\<close>\<close>

definition print_step :: "int \<Rightarrow> string \<Rightarrow> (unit, 'w) prog" where
  "print_step step_num title =
    bind_prog (say (''\<newline>'' @ replicate 60 CHR ''='')) (\<lambda>_.
    bind_prog (say (''STEP '' @ str_int step_num @ '': '' @ title)) (\<lambda>_.
    say (replicate 60 CHR ''='')))"

definition check_gcloud_installed :: "'w executor \<Rightarrow> (bool, 'w) prog" where
  "check_gcloud_installed ex s =
    (case subprocess_run ex (Argv [''gcloud'', ''--version'']) True s of
       (Inr r, s') \<Rightarrow> (Inr True, s')
     | (Inl (CalledProcessError rc c so se), s') \<Rightarrow> (Inr False, s')
     | (Inl (FileNotFoundError f), s') \<Rightarrow> (Inr False, s')
     | (Inl e, s') \<Rightarrow> (Inl e, s'))"

text \<open>The result \<^verbatim>\<open>(None, None)\<close> is \<open>None\<close>, the result \<^verbatim>\<open>(project_id, user_email)\<close>
  is \<open>Some\<close> of the pair.\<close>

definition ask_user_email :: "'w executor \<Rightarrow> (string, 'w) prog" where
  "ask_user_email ex s =
    (case subprocess_run ex
            (Argv [''gcloud'', ''auth'', ''list'', ''--filter=status:ACTIVE'', ''--format=value(account)''])
            True s of
       (Inr (so, se), s') \<Rightarrow>
         (Inr (py_strip (format_opt so)),
          print (glyph_ok @ '' Active user: '' @ py_strip (format_opt so)) s')
     | (Inl (CalledProcessError rc c so se), s') \<Rightarrow>
         bind_prog (input ''Enter your Google account email: '') (\<lambda>line. return_prog (py_strip line)) s'
     | (Inl e, s') \<Rightarrow> (Inl e, s'))"

definition get_project_info :: "'w executor \<Rightarrow> ((string \<times> string) option, 'w) prog" where
  "get_project_info ex =
    bind_prog (say (''\<newline>'' @ glyph_clipboard @ '' Google Cloud Project Setup'')) (\<lambda>_.
    bind_prog (say (replicate 40 CHR ''-'')) (\<lambda>_.
    bind_prog (input ''Enter your Google Cloud Project ID: '') (\<lambda>line.
    if py_strip line = []
    then bind_prog (say (glyph_fail @ '' Project ID is required!'')) (\<lambda>_. return_prog None)
    else (\<lambda>s.
      case subprocess_run ex (Argv [''gcloud'', ''projects'', ''describe'', py_strip line]) True s of
        (Inr r, s') \<Rightarrow>
          bind_prog (say (glyph_ok @ '' Project '' @ [CHR 0x27] @ py_strip line @ [CHR 0x27] @ '' found!'')) (\<lambda>_.
          bind_prog (ask_user_email ex) (\<lambda>user_email.
          return_prog (Some (py_strip line, user_email)))) s'
      | (Inl (CalledProcessError rc c so se), s') \<Rightarrow>
          bind_prog (say (glyph_fail @ '' Project '' @ [CHR 0x27] @ py_strip line @ [CHR 0x27]
                          @ '' not found or you don't have access!''))
            (\<lambda>_. return_prog None) s'
      | (Inl e, s') \<Rightarrow> (Inl e, s')))))"

subsection \<open>\<^verbatim>\<open>setup_bigquery_datasets\<close>\<close>

definition dataset_command :: "string \<Rightarrow> string \<Rightarrow> command" where
  "dataset_command project_id dataset =
    Argv [''bq'', ''mk'', ''--dataset'', ''--location=US'', project_id @ '':'' @ dataset]"

text \<open>The \<^verbatim>\<open>for\<close> loop over the dataset names.\<close>

fun create_datasets :: "'w executor \<Rightarrow> string \<Rightarrow> string list \<Rightarrow> (bool, 'w) prog" where
  "create_datasets ex project_id [] = return_prog True"
| "create_datasets ex project_id (dataset # rest) = (\<lambda>s.
    case subprocess_run ex (dataset_command project_id dataset) False s of
      (Inr r, s') \<Rightarrow>
        bind_prog (say (glyph_ok @ '' Created dataset: '' @ dataset))
          (\<lambda>_. create_datasets ex project_id rest) s'
    | (Inl (CalledProcessError rc c so se), s') \<Rightarrow>
        (if sublist ''already exists'' (str_exn (CalledProcessError rc c so se))
         then bind_prog (say (glyph_info @ ''  Dataset '' @ dataset @ '' already exists''))
                (\<lambda>_. create_datasets ex project_id rest) s'
         else bind_prog (say (glyph_fail @ '' Failed to create dataset '' @ dataset @ '': ''
                              @ str_exn (CalledProcessError rc c so se)))
                (\<lambda>_. return_prog False) s')
    | (Inl e, s') \<Rightarrow> (Inl e, s'))"

definition datasets :: "string list" where
  "datasets = [''healthcare_data_dev'', ''healthcare_data_prod'']"

definition setup_bigquery_datasets_with :: "'w executor \<Rightarrow> string \<Rightarrow> string list \<Rightarrow> (bool, 'w) prog" where
  "setup_bigquery_datasets_with ex project_id names =
    bind_prog (print_step 2 ''Setting up BigQuery Datasets'') (\<lambda>_.
    create_datasets ex project_id names)"

definition setup_bigquery_datasets :: "'w executor \<Rightarrow> string \<Rightarrow> (bool, 'w) prog" where
  "setup_bigquery_datasets ex project_id = setup_bigquery_datasets_with ex project_id datasets"

subsection \<open>\<^verbatim>\<open>create_service_account\<close>\<close>

definition service_account_name :: string where
  "service_account_name = ''dbt-healthcare-service''"

definition service_account_email :: "string \<Rightarrow> string" where
  "service_account_email project_id =
    service_account_name @ ''@'' @ project_id @ ''.iam.gserviceaccount.com''"

definition role_command :: "string \<Rightarrow> string \<Rightarrow> command" where
  "role_command project_id role =
    Argv [''gcloud'', ''projects'', ''add-iam-policy-binding'', project_id,
          ''--member=serviceAccount:'' @ service_account_email project_id,
          ''--role='' @ role]"

text \<open>The \<^verbatim>\<open>for\<close> loop over the roles.\<close>

fun assign_roles :: "'w executor \<Rightarrow> string \<Rightarrow> string list \<Rightarrow> (unit, 'w) prog" where
  "assign_roles ex project_id [] = return_prog ()"
| "assign_roles ex project_id (role # rest) = (\<lambda>s.
    case subprocess_run ex (role_command project_id role) False s of
      (Inr r, s') \<Rightarrow>
        bind_prog (say (glyph_ok @ '' Assigned role: '' @ role))
          (\<lambda>_. assign_roles ex project_id rest) s'
    | (Inl (CalledProcessError rc c so se), s') \<Rightarrow>
        bind_prog (say (glyph_fail @ '' Failed to assign role '' @ role @ '': ''
                        @ str_exn (CalledProcessError rc c so se)))
          (\<lambda>_. assign_roles ex project_id rest) s'
    | (Inl e, s') \<Rightarrow> (Inl e, s'))"

definition roles :: "string list" where
  "roles =
    [''roles/bigquery.dataEditor'', ''roles/bigquery.jobUser'',
     ''roles/bigquery.dataViewer'', ''roles/bigquery.connectionUser'']"

definition create_account_command :: "string \<Rightarrow> command" where
  "create_account_command project_id =
    Argv [''gcloud'', ''iam'', ''service-accounts'', ''create'', service_account_name,
          ''--display-name=dbt Healthcare Service Account'',
          ''--description=Service account for dbt healthcare data pipeline'',
          ''--project='' @ project_id]"

definition create_service_account_with ::
  "'w executor \<Rightarrow> string \<Rightarrow> string list \<Rightarrow> (string option, 'w) prog" where
  "create_service_account_with ex project_id rs =
    bind_prog (print_step 3 ''Creating Service Account'') (\<lambda>_. (\<lambda>s.
    case subprocess_run ex (create_account_command project_id) False s of
      (Inr r, s') \<Rightarrow>
        bind_prog (say (glyph_ok @ '' Created service account: '' @ service_account_name)) (\<lambda>_.
        bind_prog (assign_roles ex project_id rs) (\<lambda>_.
        return_prog (Some (service_account_email project_id)))) s'
    | (Inl (CalledProcessError rc c so se), s') \<Rightarrow>
        (if sublist ''already exists'' (str_exn (CalledProcessError rc c so se))
         then bind_prog (say (glyph_info @ ''  Service account '' @ service_account_name @ '' already exists'')) (\<lambda>_.
              bind_prog (assign_roles ex project_id rs) (\<lambda>_.
              return_prog (Some (service_account_email project_id)))) s'
         else bind_prog (say (glyph_fail @ '' Failed to create service account: ''
                              @ str_exn (CalledProcessError rc c so se)))
                (\<lambda>_. return_prog None) s')
    | (Inl e, s') \<Rightarrow> (Inl e, s')))"

definition create_service_account :: "'w executor \<Rightarrow> string \<Rightarrow> (string option, 'w) prog" where
  "create_service_account ex project_id = create_service_account_with ex project_id roles"

subsection \<open>\<^verbatim>\<open>create_service_account_key\<close>\<close>

text \<open>\<open>script_dir\<close> is \<^verbatim>\<open>Path(__file__).parent\<close>, the directory of the script.\<close>

definition create_service_account_key ::
  "'w executor \<Rightarrow> string \<Rightarrow> string \<Rightarrow> string \<Rightarrow> (string option, 'w) prog" where
  "create_service_account_key ex script_dir project_id account_email =
    bind_prog (print_step 4 ''Creating Service Account Key'') (\<lambda>_. (\<lambda>s.
    case subprocess_run ex
           (Argv [''gcloud'', ''iam'', ''service-accounts'', ''keys'', ''create'',
                  path_join script_dir ''dbt-service-account-key.json'',
                  ''--iam-account='' @ account_email]) False s of
      (Inr r, s') \<Rightarrow>
        bind_prog (say (glyph_ok @ '' Created service account key: ''
                        @ path_join script_dir ''dbt-service-account-key.json''))
          (\<lambda>_. return_prog (Some (path_join script_dir ''dbt-service-account-key.json''))) s'
    | (Inl (CalledProcessError rc c so se), s') \<Rightarrow>
        bind_prog (say (glyph_fail @ '' Failed to create service account key: ''
                        @ str_exn (CalledProcessError rc c so se)))
          (\<lambda>_. return_prog None) s'
    | (Inl e, s') \<Rightarrow> (Inl e, s')))"

subsection \<open>\<^verbatim>\<open>update_profiles_yml\<close>\<close>

definition project_token :: string where
  "project_token = ''your-gcp-project-id''"

definition key_path_token :: string where
  "key_path_token =
    ''/Users/nezamsp8/Developer/python/dataEngineeringPractice/dbt-service-account-key.json''"

text \<open>The two \<^verbatim>\<open>content = content.replace(...)\<close> statements, the same in both scripts.\<close>

definition replace_placeholders :: "string \<Rightarrow> string \<Rightarrow> string \<Rightarrow> string" where
  "replace_placeholders content project_id key_file_path =
    py_replace (py_replace content project_token project_id) key_path_token key_file_path"

definition update_profiles_yml_gcp :: "string \<Rightarrow> string \<Rightarrow> string \<Rightarrow> (bool, 'w) prog" where
  "update_profiles_yml_gcp script_dir project_id key_file_path =
    bind_prog (print_step 5 ''Updating dbt Configuration'') (\<lambda>_.
    bind_prog (path_exists (path_join script_dir ''profiles.yml'')) (\<lambda>found.
    if \<not> found
    then bind_prog (say (glyph_fail @ '' profiles.yml not found at '' @ path_join script_dir ''profiles.yml''))
           (\<lambda>_. return_prog False)
    else
    bind_prog (do_read (path_join script_dir ''profiles.yml'')) (\<lambda>content.
    bind_prog (do_write (path_join script_dir ''profiles.yml'')
                 (replace_placeholders content project_id key_file_path)) (\<lambda>_.
    bind_prog (say (glyph_ok @ '' Updated profiles.yml with project ID: '' @ project_id)) (\<lambda>_.
    bind_prog (say (glyph_ok @ '' Updated key file path: '' @ key_file_path)) (\<lambda>_.
    return_prog True))))))"

subsection \<open>\<^verbatim>\<open>test_dbt_connection\<close>\<close>

definition test_dbt_connection :: "'w executor \<Rightarrow> string \<Rightarrow> (bool, 'w) prog" where
  "test_dbt_connection ex script_dir =
    bind_prog (print_step 6 ''Testing dbt Connection'') (\<lambda>_.
    bind_prog (path_exists (path_join script_dir ''my_project'')) (\<lambda>found.
    if \<not> found
    then bind_prog (say (glyph_fail @ '' dbt project directory not found: '' @ path_join script_dir ''my_project''))
           (\<lambda>_. return_prog False)
    else (\<lambda>s.
      case subprocess_run ex
             (Argv [''dbt'', ''debug'', ''--project-dir'', path_join script_dir ''my_project'']) True s of
        (Inr (so, se), s') \<Rightarrow>
          bind_prog (say (glyph_ok @ '' dbt connection test successful!'')) (\<lambda>_.
          bind_prog (say ''Connection details:'') (\<lambda>_.
          bind_prog (say (format_opt so)) (\<lambda>_.
          return_prog True))) s'
      | (Inl (CalledProcessError rc c so se), s') \<Rightarrow>
          bind_prog (say (glyph_fail @ '' dbt connection test failed: ''
                          @ str_exn (CalledProcessError rc c so se))) (\<lambda>_.
          bind_prog (say ''Error output:'') (\<lambda>_.
          bind_prog (say (format_opt se)) (\<lambda>_.
          return_prog False))) s'
      | (Inl e, s') \<Rightarrow> (Inl e, s'))))"

subsection \<open>\<^verbatim>\<open>setup_looker_instructions\<close>\<close>

definition looker_instructions :: string where
  \<open>looker_instructions =
''\<newline>[target] Next Steps for Looker Studio Integration:\<newline>\<newline>1. Go to Looker Studio: https://datastudio.google.com/\<newline>2. Click "Create" -> "Data Source"\<newline>3. Select "BigQuery" as your data source\<newline>4. Choose your project and dataset (healthcare_data_dev or healthcare_data_prod)\<newline>5. Select the tables you want to visualize:\<newline>   - stg_patients (cleaned patient data)\<newline>   - stg_visits (visit records)\<newline>   - stg_lab_results (lab test results)\<newline>   - patient_summary (aggregated patient analytics)\<newline>   - department_metrics (department performance)\<newline>\<newline>6. Create visualizations:\<newline>   [chart] Patient Demographics Dashboard\<newline>   [trend] Department Performance Metrics\<newline>   [microscope] Lab Results Trends\<newline>   [people] Patient Utilization Patterns\<newline>\<newline>7. Share your dashboards with your team!\<newline>\<newline>[bulb] Pro Tips:\<newline>- Use the marts models (patient_summary, department_metrics) for business dashboards\<newline>- Use staging models (stg_*) for detailed analysis\<newline>- Set up scheduled refreshes to keep data current\<newline>- Use BigQuery's built-in ML features for predictive analytics\<newline>''\<close>

definition setup_looker_instructions :: "(unit, 'w) prog" where
  "setup_looker_instructions =
    bind_prog (print_step 7 ''Looker Studio Setup Instructions'') (\<lambda>_. say looker_instructions)"

subsection \<open>\<^verbatim>\<open>main\<close> of \<^verbatim>\<open>setup_gcp_looker.py\<close>\<close>

definition main_gcp :: "'w executor \<Rightarrow> string \<Rightarrow> (bool, 'w) prog" where
  "main_gcp ex script_dir =
    bind_prog (say (glyph_hospital @ '' Healthcare dbt + Google Cloud + Looker Setup'')) (\<lambda>_.
    bind_prog (say (replicate 60 CHR ''='')) (\<lambda>_.
    bind_prog (check_gcloud_installed ex) (\<lambda>installed.
    if \<not> installed
    then bind_prog (say (glyph_fail @ '' Google Cloud CLI not found!'')) (\<lambda>_.
         bind_prog (say ''Please install it from: https://cloud.google.com/sdk/docs/install'') (\<lambda>_.
         return_prog False))
    else
    bind_prog (get_project_info ex) (\<lambda>info.
    case info of
      None \<Rightarrow> return_prog False
    | Some (project_id, user_email) \<Rightarrow>
    if project_id = [] then return_prog False
    else
    bind_prog (setup_bigquery_datasets ex project_id) (\<lambda>datasets_ok.
    if \<not> datasets_ok then return_prog False
    else
    bind_prog (create_service_account ex project_id) (\<lambda>account.
    case account of
      None \<Rightarrow> return_prog False
    | Some account_email \<Rightarrow>
    if account_email = [] then return_prog False
    else
    bind_prog (create_service_account_key ex script_dir project_id account_email) (\<lambda>key.
    case key of
      None \<Rightarrow> return_prog False
    | Some key_file \<Rightarrow>
    if key_file = [] then return_prog False
    else
    bind_prog (update_profiles_yml_gcp script_dir project_id key_file) (\<lambda>updated.
    if \<not> updated then return_prog False
    else
    bind_prog (test_dbt_connection ex script_dir) (\<lambda>connected.
    bind_prog (if \<not> connected
               then say (''\<newline>'' @ glyph_warn @ ''  dbt connection test failed, but you can continue with manual setup'')
               else return_prog ()) (\<lambda>_.
    bind_prog setup_looker_instructions (\<lambda>_.
    bind_prog (say (''\<newline>'' @ glyph_party @ '' Setup Complete!'')) (\<lambda>_.
    bind_prog (say (replicate 60 CHR ''='')) (\<lambda>_.
    bind_prog (say ''Your healthcare data pipeline is now configured for Google Cloud and Looker!'') (\<lambda>_.
    bind_prog (say ''\<newline>Next steps:'') (\<lambda>_.
    bind_prog (say ''1. Run 'dbt seed' to load your CSV data'') (\<lambda>_.
    bind_prog (say ''2. Run 'dbt run' to create your models'') (\<lambda>_.
    bind_prog (say ''3. Run 'dbt test' to validate data quality'') (\<lambda>_.
    bind_prog (say ''4. Set up Looker Studio dashboards'') (\<lambda>_.
    return_prog True)))))))))))))))))))"

text \<open>
  The \<^verbatim>\<open>__main__\<close> block: the exit status is 0 when \<open>main\<close> returns \<^verbatim>\<open>True\<close> and 1
  when it returns \<^verbatim>\<open>False\<close>; an exception is reported and gives 1.
\<close>

definition script_gcp :: "'w executor \<Rightarrow> string \<Rightarrow> 'w state \<Rightarrow> int \<times> 'w state" where
  "script_gcp ex script_dir s =
    (case main_gcp ex script_dir s of
       (Inr success, s') \<Rightarrow> (if success then 0 else 1, s')
     | (Inl (SystemExit n), s') \<Rightarrow> (n, s')
     | (Inl e, s') \<Rightarrow> (1, print (''\<newline>'' @ glyph_fail @ '' Unexpected error: '' @ str_exn e) s'))"

section \<open>\<^verbatim>\<open>quick_setup.py\<close>\<close>

definition quick_profiles_file :: string where
  "quick_profiles_file = ''/Users/nezamsp8/.dbt/profiles.yml''"

definition update_profiles_yml_quick :: "string \<Rightarrow> string \<Rightarrow> (bool, 'w) prog" where
  "update_profiles_yml_quick project_id key_file_path =
    bind_prog (path_exists quick_profiles_file) (\<lambda>found.
    if \<not> found
    then bind_prog (say (glyph_fail @ '' profiles.yml not found!'')) (\<lambda>_. return_prog False)
    else
    bind_prog (do_read quick_profiles_file) (\<lambda>content.
    bind_prog (do_write quick_profiles_file
                 (replace_placeholders content project_id key_file_path)) (\<lambda>_.
    bind_prog (say (glyph_ok @ '' Updated profiles.yml with:'')) (\<lambda>_.
    bind_prog (say (''   Project ID: '' @ project_id)) (\<lambda>_.
    bind_prog (say (''   Key file: '' @ key_file_path)) (\<lambda>_.
    return_prog True))))))"

definition main_quick :: "(bool, 'w) prog" where
  "main_quick =
    bind_prog (say (glyph_wrench @ '' Quick Configuration Setup'')) (\<lambda>_.
    bind_prog (say (replicate 40 CHR ''='')) (\<lambda>_.
    bind_prog (input ''Enter your Google Cloud Project ID: '') (\<lambda>line1.
    if py_strip line1 = []
    then bind_prog (say (glyph_fail @ '' Project ID is required!'')) (\<lambda>_. return_prog False)
    else
    bind_prog (input ''Enter path to your service account key file (or press Enter for default): '') (\<lambda>line2.
    bind_prog (path_exists (if py_strip line2 = [] then key_path_token else py_strip line2)) (\<lambda>found.
    if \<not> found
    then bind_prog (say (glyph_fail @ '' Key file not found: ''
                         @ (if py_strip line2 = [] then key_path_token else py_strip line2))) (\<lambda>_.
         bind_prog (say ''Please download your service account key file first!'') (\<lambda>_.
         return_prog False))
    else
    bind_prog (update_profiles_yml_quick (py_strip line1)
                 (if py_strip line2 = [] then key_path_token else py_strip line2)) (\<lambda>updated.
    if updated
    then bind_prog (say (''\<newline>'' @ glyph_ok @ '' Configuration updated successfully!'')) (\<lambda>_.
         bind_prog (say ''\<newline>Next steps:'') (\<lambda>_.
         bind_prog (say ''1. Run: dbt debug (to test connection)'') (\<lambda>_.
         bind_prog (say ''2. Run: dbt seed (to load CSV data)'') (\<lambda>_.
         bind_prog (say ''3. Run: dbt run (to create models)'') (\<lambda>_.
         bind_prog (say ''4. Set up Looker Studio dashboards'') (\<lambda>_.
         return_prog True))))))
    else return_prog False))))))"

text \<open>The \<^verbatim>\<open>__main__\<close> block of \<^verbatim>\<open>quick_setup.py\<close> catches \<^verbatim>\<open>KeyboardInterrupt\<close>
  only; any other exception ends the process with status 1.\<close>

definition script_quick :: "'w state \<Rightarrow> int \<times> 'w state" where
  "script_quick s =
    (case main_quick s of
       (Inr success, s') \<Rightarrow> (if success then 0 else 1, s')
     | (Inl (SystemExit n), s') \<Rightarrow> (n, s')
     | (Inl e, s') \<Rightarrow> (1, s'))"

section \<open>The specification's words\<close>

text \<open>
  A simultaneous replacement of several tokens, to compare the rewriter with: the text is
  read once from the left; where a token of the mapping starts (the first one in the
  mapping's order that does), its value is written and reading goes on behind the token,
  so a value that was written is never read again.
\<close>

fun first_match :: "(string \<times> string) list \<Rightarrow> string \<Rightarrow> (string \<times> string) option" where
  "first_match [] t = None"
| "first_match ((token, val) # rest) t =
    (if token \<noteq> [] \<and> prefix token t then Some (token, val) else first_match rest t)"

function simultaneous_replace :: "(string \<times> string) list \<Rightarrow> string \<Rightarrow> string" where
  "simultaneous_replace m [] = []"
| "simultaneous_replace m (c # cs) =
    (case first_match m (c # cs) of
       Some (token, val) \<Rightarrow>
         (if token = [] then c # simultaneous_replace m cs
          else val @ simultaneous_replace m (drop (length token) (c # cs)))
     | None \<Rightarrow> c # simultaneous_replace m cs)"
  by pat_completeness auto
termination
  by (relation "measure (\<lambda>(m, t). length t)") auto

declare simultaneous_replace.simps(2) [simp del]

section \<open>Concrete worlds for the examples\<close>

definition blank :: "unit state" where
  "blank = \<lparr>files = Map.empty, workdir = ''/work'', outside = (), keyboard = [],
            printed = [], spawned = [], probed = []\<rparr>"

text \<open>An outside in which the commands of \<open>bad\<close> end with the given status and error
  text, and every other command ends with status 0.\<close>

definition failing :: "(command \<times> int \<times> string) list \<Rightarrow> unit executor" where
  "failing bad cmd wd env =
    (case map_of bad cmd of
       Some (rc, err) \<Rightarrow> (Completed rc [] err, env)
     | None \<Rightarrow> (Completed 0 [] [], env))"

definition answering :: "int \<Rightarrow> string \<Rightarrow> string \<Rightarrow> unit fetcher" where
  "answering status reason body url w = (Response status reason body, w)"

definition succeeded :: "proc_outcome \<Rightarrow> bool" where
  "succeeded r = (case r of Completed rc so se \<Rightarrow> rc = 0 | NotLaunched e \<Rightarrow> False)"

definition exited_nonzero :: "proc_outcome \<Rightarrow> bool" where
  "exited_nonzero r = (case r of Completed rc so se \<Rightarrow> rc \<noteq> 0 | NotLaunched e \<Rightarrow> False)"

text \<open>What the role loop prints for the outcomes it met, in order.\<close>

fun role_lines :: "string \<Rightarrow> string list \<Rightarrow> proc_outcome list \<Rightarrow> string list" where
  "role_lines project_id (role # rs) (Completed rc so se # outs) =
    (if rc = 0 then glyph_ok @ '' Assigned role: '' @ role
     else glyph_fail @ '' Failed to assign role '' @ role @ '': ''
            @ str_exn (CalledProcessError rc (role_command project_id role) None None))
    # role_lines project_id rs outs"
| "role_lines project_id rs outs = []"

definition three_roles :: "string list" where
  "three_roles = [''roleA'', ''roleB'', ''roleC'']"

definition three_steps :: "(string \<times> string) list" where
  "three_steps = [(''A'', ''step A''), (''B'', ''step B''), (''C'', ''step C'')]"

definition project_dir_world :: "unit state" where
  "project_dir_world = blank\<lparr>files := [''my_project'' \<mapsto> Dir]\<rparr>"

text \<open>
  Two properties of a token and a value, both decidable. A token is unbordered when no
  proper non-empty beginning of it is also an end of it, so that two occurrences of it
  never overlap. A value is overlap-free for a token when the two can neither overlap nor
  contain each other: no non-empty end of the value is a beginning of the token or begins
  with the token, and no non-empty end of the token is a beginning of the value or begins
  with the value.
\<close>

definition unbordered :: "string \<Rightarrow> bool" where
  "unbordered tok = list_all (\<lambda>t. t = [] \<or> t = tok \<or> \<not> suffix t tok) (prefixes tok)"

definition overlap_free :: "string \<Rightarrow> string \<Rightarrow> bool" where
  "overlap_free tok v =
    (list_all (\<lambda>w. w = [] \<or> (\<not> prefix w tok \<and> \<not> prefix tok w)) (suffixes v) \<and>
     list_all (\<lambda>t. t = [] \<or> (\<not> prefix t v \<and> \<not> prefix v t)) (suffixes tok))"

text \<open>A configuration file with both placeholders, and worlds that hold it.\<close>

definition template :: string where
  "template = ''project: your-gcp-project-id\<newline>dataset: your-gcp-project-id_dev\<newline>keyfile: ''
               @ key_path_token @ ''\<newline>''"

definition template_world :: "unit state" where
  "template_world = blank\<lparr>files := [quick_profiles_file \<mapsto> File template,
                                        ''profiles.yml'' \<mapsto> File template,
                                        key_path_token \<mapsto> File ''{}'']\<rparr>"

definition nested_value_content :: string where
  "nested_value_content = ''project: your-gcp-project-id''"

text \<open>An outside in which the first dataset is already there.\<close>

definition dataset_exists_text :: string where
  "dataset_exists_text =
    ''BigQuery error in mk operation: Dataset 'acme:healthcare_data_dev' already exists.''"

definition dataset_exists_outside :: "unit executor" where
  "dataset_exists_outside =
    failing [(dataset_command ''acme'' ''healthcare_data_dev'', 1, dataset_exists_text)]"

section \<open>Which command failures end a run\<close>

text \<open>
  The kinds of command whose non-zero status the scripts go on after: the two package
  installations of \<open>setup_environment\<close>, the role bindings, the connection test, the query
  for the active account, and a creation command (dataset, service account) whose
  exception text holds the words \<^verbatim>\<open>already exists\<close>. A recorded command is fatal when it
  ended with a non-zero status and is none of these.
\<close>

definition argv_starts :: "string list \<Rightarrow> command \<Rightarrow> bool" where
  "argv_starts p c = (case c of Argv xs \<Rightarrow> prefix p xs | Shell line \<Rightarrow> False)"

definition is_pip_install :: "command \<Rightarrow> bool" where
  "is_pip_install c = (c = Shell ''pip install dbt-bigquery'' \<or> c = Shell ''pip install requests'')"

definition is_role_binding :: "command \<Rightarrow> bool" where
  "is_role_binding c = argv_starts [''gcloud'', ''projects'', ''add-iam-policy-binding''] c"

definition is_connection_test :: "command \<Rightarrow> bool" where
  "is_connection_test c = argv_starts [''dbt'', ''debug''] c"

definition is_account_query :: "command \<Rightarrow> bool" where
  "is_account_query c = argv_starts [''gcloud'', ''auth'', ''list''] c"

definition is_creation :: "command \<Rightarrow> bool" where
  "is_creation c =
    (argv_starts [''bq'', ''mk''] c \<or>
     argv_starts [''gcloud'', ''iam'', ''service-accounts'', ''create''] c)"

definition tolerated :: "command \<Rightarrow> int \<Rightarrow> bool" where
  "tolerated c rc =
    (is_pip_install c \<or> is_role_binding c \<or> is_connection_test c \<or> is_account_query c \<or>
     (is_creation c \<and> sublist ''already exists'' (str_exn (CalledProcessError rc c None None))))"

fun fatal :: "command \<times> proc_outcome \<Rightarrow> bool" where
  "fatal (c, Completed rc so se) = (rc \<noteq> 0 \<and> \<not> tolerated c rc)"
| "fatal (c, NotLaunched e) = False"

text \<open>
  \<open>calm\<close>: no fatal command in a stretch of the record. \<open>shown\<close>: one of the last two
  lines printed starts with the failure glyph (after a line break, for the one line the
  scripts print that way).
\<close>

definition calm :: "(command \<times> proc_outcome) list \<Rightarrow> bool" where
  "calm new = list_all (\<lambda>e. \<not> fatal e) new"

definition shown :: "'w state \<Rightarrow> bool" where
  "shown s =
    list_ex (\<lambda>line. prefix glyph_fail line \<or> prefix (''\<newline>'' @ glyph_fail) line)
      (drop (length (printed s) - 2) (printed s))"

text \<open>
  Three properties of a piece of script, used to pass the fail-fast property through the
  sequencing of calls. \<open>silent\<close>: it launches nothing. \<open>orderly P failed\<close>: nothing it
  launches before its last command is fatal, and when the last one is, its result is a
  \<open>failed\<close> one and \<open>P\<close> holds of the state it leaves. \<open>halting P Q failed\<close>: it launches
  nothing, ends with a \<open>failed\<close> result and turns \<open>P\<close> into \<open>Q\<close>.
\<close>

definition silent :: "('a, 'w) prog \<Rightarrow> bool" where
  "silent p = (\<forall>s. spawned (snd (p s)) = spawned s)"

definition orderly ::
  "('w state \<Rightarrow> bool) \<Rightarrow> ((exn + 'a) \<Rightarrow> bool) \<Rightarrow> ('a, 'w) prog \<Rightarrow> bool" where
  "orderly P failed p =
    (\<forall>s. \<exists>new. spawned (snd (p s)) = spawned s @ new \<and> calm (butlast new) \<and>
        (new \<noteq> [] \<and> fatal (last new) \<longrightarrow> failed (fst (p s)) \<and> P (snd (p s))))"

definition halting ::
  "('w state \<Rightarrow> bool) \<Rightarrow> ('w state \<Rightarrow> bool) \<Rightarrow> ((exn + 'a) \<Rightarrow> bool) \<Rightarrow> ('a, 'w) prog \<Rightarrow> bool" where
  "halting P Q failed p =
    (\<forall>s. spawned (snd (p s)) = spawned s \<and> failed (fst (p s)) \<and> (P s \<longrightarrow> Q (snd (p s))))"

text \<open>Worlds for whole runs of the two scripts.\<close>

definition ready_world :: "unit state" where
  "ready_world = blank\<lparr>files := [''my_project'' \<mapsto> Dir,
                                     ''my_project/dbt_project.yml'' \<mapsto> File ''name: healthcare'',
                                     ''profiles.yml'' \<mapsto> File template]\<rparr>"

definition in_venv :: interpreter where
  "in_venv = \<lparr>sys_real_prefix = None, sys_base_prefix = Some ''/usr'', sys_prefix = ''/work/venv''\<rparr>"

definition pip_fails :: "unit executor" where
  "pip_fails = failing [(Shell ''pip install dbt-bigquery'', 1, ''no network'')]"

definition model_fails :: "unit executor" where
  "model_fails = failing [(Shell ''dbt run'', 2, ''model error'')]"

definition key_denied :: "unit executor" where
  "key_denied =
    failing [(Argv [''gcloud'', ''iam'', ''service-accounts'', ''keys'', ''create'',
                    ''dbt-service-account-key.json'',
                    ''--iam-account=dbt-healthcare-service@acme.iam.gserviceaccount.com''],
              1, ''permission denied'')]"

section \<open>Properties\<close>

lemmas prog_defs = bind_prog_def return_prog_def raise_prog_def say_def print_def

subsection \<open>The command runner\<close>

lemma run_command_completed:
  assumes "ex (Shell c) (workdir s) (files s, outside s) = (Completed rc so se, (fs', w'))"
  shows "run_command ex c d s =
    (Inr (if rc = 0 then Some so else None),
     s\<lparr>files := fs', outside := w',
       spawned := spawned s @ [(Shell c, Completed rc so se)],
       printed := printed s @ [glyph_busy @ '' '' @ d @ ''...'',
         if rc = 0 then glyph_ok @ '' '' @ d @ '' completed successfully''
         else glyph_fail @ '' '' @ d @ '' failed: '' @ se]\<rparr>)"
  using assms by (simp add: run_command_def subprocess_run_def print_def)

text \<open>
  C6. \<open>run_command\<close> starts the command once. When the child ends with status zero the
  result is the captured standard output; when it ends with any other status the result
  is \<^verbatim>\<open>None\<close> and the line printed holds the description and the captured error
  text. Nothing but the test \<open>rc = 0\<close> looks at the status: two runs that differ only in
  a non-zero status give the same result and print the same lines.
\<close>

theorem run_command_zero_or_nonzero:
  assumes "ex (Shell c) (workdir s) (files s, outside s) = (Completed rc so se, env')"
  shows "(fst (run_command ex c d s) = Inr (Some so) \<longleftrightarrow> rc = 0) \<and>
         (fst (run_command ex c d s) = Inr None \<longleftrightarrow> rc \<noteq> 0) \<and>
         (rc \<noteq> 0 \<longrightarrow>
            printed (snd (run_command ex c d s)) =
              printed s @ [glyph_busy @ '' '' @ d @ ''...'',
                           glyph_fail @ '' '' @ d @ '' failed: '' @ se]) \<and>
         spawned (snd (run_command ex c d s)) = spawned s @ [(Shell c, Completed rc so se)] \<and>
         (\<forall>ex2 rc2. ex2 (Shell c) (workdir s) (files s, outside s) = (Completed rc2 so se, env')
            \<and> rc \<noteq> 0 \<and> rc2 \<noteq> 0 \<longrightarrow>
            fst (run_command ex2 c d s) = fst (run_command ex c d s) \<and>
            printed (snd (run_command ex2 c d s)) = printed (snd (run_command ex c d s)))"
proof -
  obtain fs' w' where env': "env' = (fs', w')" by (cases env')
  have here: "run_command ex c d s =
    (Inr (if rc = 0 then Some so else None),
     s\<lparr>files := fs', outside := w',
       spawned := spawned s @ [(Shell c, Completed rc so se)],
       printed := printed s @ [glyph_busy @ '' '' @ d @ ''...'',
         if rc = 0 then glyph_ok @ '' '' @ d @ '' completed successfully''
         else glyph_fail @ '' '' @ d @ '' failed: '' @ se]\<rparr>)"
    using assms env' by (simp add: run_command_completed)
  have other: "fst (run_command ex2 c d s) = Inr None \<and>
      printed (snd (run_command ex2 c d s)) =
        printed s @ [glyph_busy @ '' '' @ d @ ''...'', glyph_fail @ '' '' @ d @ '' failed: '' @ se]"
    if "ex2 (Shell c) (workdir s) (files s, outside s) = (Completed rc2 so se, env')" "rc2 \<noteq> 0"
    for ex2 rc2
    using that env' by (simp add: run_command_completed)
  show ?thesis
    using here other by auto
qed

theorem run_command_zero_or_nonzero_witness:
  "fst (run_command (failing [(Shell ''dbt run'', 2, ''model error'')]) ''dbt run'' ''Running dbt models'' blank)
     = Inr None \<and>
   printed (snd (run_command (failing [(Shell ''dbt run'', 2, ''model error'')]) ''dbt run'' ''Running dbt models'' blank))
     = [''[~] Running dbt models...'', ''[x] Running dbt models failed: model error''] \<and>
   map fst (spawned (snd (run_command (failing [(Shell ''dbt run'', 2, ''model error'')]) ''dbt run'' ''Running dbt models'' blank)))
     = [Shell ''dbt run'']"
proof -
  have h: "failing [(Shell ''dbt run'', 2, ''model error'')] (Shell ''dbt run'') (workdir blank)
             (files blank, outside blank) = (Completed 2 [] ''model error'', (Map.empty, ()))"
    by (simp add: failing_def blank_def)
  show ?thesis
    using run_command_zero_or_nonzero
            [where ex = "failing [(Shell ''dbt run'', 2, ''model error'')]" and c = "''dbt run''"
               and s = blank and d = "''Running dbt models''", OF h]
    by (simp add: blank_def)
qed

subsection \<open>Launching commands\<close>

lemma subprocess_run_completed:
  assumes "ex cmd (workdir s) (files s, outside s) = (Completed rc so se, (fs', w'))"
  shows "subprocess_run ex cmd capture s =
    (if rc \<noteq> 0
     then Inl (CalledProcessError rc cmd (if capture then Some so else None)
                 (if capture then Some se else None))
     else Inr (if capture then Some so else None, if capture then Some se else None),
     s\<lparr>files := fs', outside := w', spawned := spawned s @ [(cmd, Completed rc so se)]\<rparr>)"
  using assms by (simp add: subprocess_run_def)

lemma subprocess_run_not_launched:
  assumes "ex cmd (workdir s) (files s, outside s) = (NotLaunched le, (fs', w'))"
  shows "subprocess_run ex cmd capture s =
    (Inl (exn_of_launch le),
     s\<lparr>files := fs', outside := w', spawned := spawned s @ [(cmd, NotLaunched le)]\<rparr>)"
  using assms by (simp add: subprocess_run_def)

lemma exn_of_launch_not_called [simp]: "exn_of_launch le \<noteq> CalledProcessError rc c so se"
  by (cases le) simp_all

subsection \<open>The pipeline driver\<close>

lemma run_command_not_launched:
  assumes "ex (Shell c) (workdir s) (files s, outside s) = (NotLaunched le, (fs', w'))"
  shows "run_command ex c d s =
    (Inl (exn_of_launch le),
     s\<lparr>files := fs', outside := w',
       spawned := spawned s @ [(Shell c, NotLaunched le)],
       printed := printed s @ [glyph_busy @ '' '' @ d @ ''...'']\<rparr>)"
  using assms by (cases le) (simp_all add: run_command_def subprocess_run_def print_def)

lemma run_steps_trace:
  "run_steps ex steps s = (r, s') \<Longrightarrow>
   \<exists>new. spawned s' = spawned s @ new \<and> length new \<le> length steps \<and>
     map fst new = map (Shell \<circ> fst) (take (length new) steps) \<and>
     (\<forall>out \<in> set (butlast (map snd new)). succeeded out) \<and>
     (case r of
        Inr b \<Rightarrow>
          (if b then length new = length steps \<and> (\<forall>out \<in> set (map snd new). succeeded out)
           else new \<noteq> [] \<and> exited_nonzero (snd (last new)) \<and>
                printed s' \<noteq> [] \<and> last (printed s') = glyph_fail @ '' Pipeline failed at: '' @ snd (steps ! (length new - 1)))
      | Inl e \<Rightarrow> new \<noteq> [] \<and> (\<exists>le. snd (last new) = NotLaunched le \<and> e = exn_of_launch le))"
proof (induction steps arbitrary: s)
  case Nil
  then show ?case by (auto simp: prog_defs)
next
  case (Cons step rest)
  obtain command description where step: "step = (command, description)" by (cases step)
  obtain out fs' w' where ex: "ex (Shell command) (workdir s) (files s, outside s) = (out, (fs', w'))"
    by (metis surj_pair)
  show ?case
  proof (cases out)
    case (NotLaunched le)
    with ex Cons.prems step show ?thesis
      by (auto simp: prog_defs run_command_not_launched
               intro!: exI[of _ "[(Shell command, out)]"])
  next
    case (Completed rcode so se)
    have rc: "run_command ex command description s =
      (Inr (if rcode = 0 then Some so else None),
       s\<lparr>files := fs', outside := w',
         spawned := spawned s @ [(Shell command, Completed rcode so se)],
         printed := printed s @ [glyph_busy @ '' '' @ description @ ''...'',
           if rcode = 0 then glyph_ok @ '' '' @ description @ '' completed successfully''
           else glyph_fail @ '' '' @ description @ '' failed: '' @ se]\<rparr>)"
      using ex Completed by (simp add: run_command_completed)
    show ?thesis
    proof (cases "rcode = 0")
      case False
      with Completed rc Cons.prems step show ?thesis
        by (auto simp: prog_defs exited_nonzero_def intro!: exI[of _ "[(Shell command, out)]"])
    next
      case True
      define s1 where "s1 = snd (run_command ex command description s)"
      have sp: "spawned s1 = spawned s @ [(Shell command, out)]"
        using rc Completed by (simp add: s1_def)
      from rc True Cons.prems step have rest: "run_steps ex rest s1 = (r, s')"
        by (simp add: prog_defs s1_def)
      from Cons.IH[OF rest] obtain new where
        n1: "spawned s' = spawned s1 @ new" and n2: "length new \<le> length rest" and
        n3: "map fst new = map (Shell \<circ> fst) (take (length new) rest)" and
        n4: "\<forall>out \<in> set (butlast (map snd new)). succeeded out" and
        n5: "case r of
        Inr b \<Rightarrow>
          (if b then length new = length rest \<and> (\<forall>out \<in> set (map snd new). succeeded out)
           else new \<noteq> [] \<and> exited_nonzero (snd (last new)) \<and>
                printed s' \<noteq> [] \<and> last (printed s') = glyph_fail @ '' Pipeline failed at: '' @ snd (rest ! (length new - 1)))
      | Inl e \<Rightarrow> new \<noteq> [] \<and> (\<exists>le. snd (last new) = NotLaunched le \<and> e = exn_of_launch le)"
        by blast
      have ok: "succeeded out" using Completed True by (simp add: succeeded_def)
      have b: "\<forall>out \<in> set (butlast (map snd ((Shell command, out) # new))). succeeded out"
        using n4 ok by (cases new) auto
      have c: "spawned s' = spawned s @ (Shell command, out) # new"
        using n1 sp by simp
      have d: "map fst ((Shell command, out) # new) =
               map (Shell \<circ> fst) (take (length ((Shell command, out) # new)) (step # rest))"
        using n3 step by simp
      have e: "case r of
        Inr b \<Rightarrow>
          (if b then length ((Shell command, out) # new) = length (step # rest) \<and>
                (\<forall>out \<in> set (map snd ((Shell command, out) # new)). succeeded out)
           else (Shell command, out) # new \<noteq> [] \<and> exited_nonzero (snd (last ((Shell command, out) # new))) \<and>
                printed s' \<noteq> [] \<and> last (printed s') = glyph_fail @ '' Pipeline failed at: '' @
                   snd ((step # rest) ! (length ((Shell command, out) # new) - 1)))
      | Inl e \<Rightarrow> (Shell command, out) # new \<noteq> [] \<and>
           (\<exists>le. snd (last ((Shell command, out) # new)) = NotLaunched le \<and> e = exn_of_launch le)"
        using n5 ok by (auto split: sum.splits if_splits simp: nth_Cons')
      show ?thesis
        using b c d e n2 by (intro exI[of _ "(Shell command, out) # new"]) simp
    qed
  qed
qed

text \<open>
  C2. \<open>run_dbt_pipeline\<close>, for any list of steps (the script's own list is \<open>commands\<close>),
  started in a directory that holds \<^verbatim>\<open>my_project\<close>: the commands it launches are a
  prefix of the steps, in their order; every command before the last one launched ended
  with status zero; it returns \<^verbatim>\<open>True\<close> exactly when every command launched ended with
  status zero, and then all steps were launched; it returns \<^verbatim>\<open>False\<close> exactly when the
  last command launched ended with a non-zero status, and then the last line printed names
  that step. So nothing is launched after the first failing step.
\<close>

theorem run_dbt_pipeline_stops_at_first_failure:
  assumes dir: "node_at (files s) ''my_project'' = Some Dir"
    and run: "run_dbt_pipeline_with ex steps s = (r, s')"
  shows "\<exists>new. spawned s' = spawned s @ new \<and> length new \<le> length steps \<and>
     map fst new = map (Shell \<circ> fst) (take (length new) steps) \<and>
     (\<forall>out \<in> set (butlast (map snd new)). succeeded out) \<and>
     (r = Inr True \<longleftrightarrow> (\<forall>out \<in> set (map snd new). succeeded out)) \<and>
     (r = Inr True \<longrightarrow> length new = length steps) \<and>
     (r = Inr False \<longleftrightarrow> new \<noteq> [] \<and> exited_nonzero (snd (last new))) \<and>
     (r = Inr False \<longrightarrow>
        last (printed s') = glyph_fail @ '' Pipeline failed at: '' @ snd (steps ! (length new - 1)))"
proof -
  define s0 where "s0 = (print (glyph_busy @ '' Running dbt pipeline...'') s)
                          \<lparr>workdir := workdir s @ ''/'' @ ''my_project''\<rparr>"
  obtain r1 s1 where steps: "run_steps ex steps s0 = (r1, s1)"
    by (cases "run_steps ex steps s0")
  have sp0: "spawned s0 = spawned s" by (simp add: s0_def print_def)
  have whole: "run_dbt_pipeline_with ex steps s =
    (case r1 of
       Inl e \<Rightarrow> (Inl e, s1)
     | Inr b \<Rightarrow> if b then (Inr True, print (glyph_ok @ '' dbt pipeline completed successfully!'') s1)
                else (Inr False, s1))"
    using dir steps
    by (simp add: run_dbt_pipeline_with_def os_chdir_def prog_defs s0_def split: sum.splits)
  from run_steps_trace[OF steps] obtain new where
    n1: "spawned s1 = spawned s0 @ new" and n2: "length new \<le> length steps" and
    n3: "map fst new = map (Shell \<circ> fst) (take (length new) steps)" and
    n4: "\<forall>out \<in> set (butlast (map snd new)). succeeded out" and
    n5: "case r1 of
        Inr b \<Rightarrow>
          (if b then length new = length steps \<and> (\<forall>out \<in> set (map snd new). succeeded out)
           else new \<noteq> [] \<and> exited_nonzero (snd (last new)) \<and>
                printed s1 \<noteq> [] \<and> last (printed s1) = glyph_fail @ '' Pipeline failed at: '' @ snd (steps ! (length new - 1)))
      | Inl e \<Rightarrow> new \<noteq> [] \<and> (\<exists>le. snd (last new) = NotLaunched le \<and> e = exn_of_launch le)"
    by blast
  have excl: "\<not> (succeeded out \<and> exited_nonzero out)" "\<not> succeeded (NotLaunched le)"
             "\<not> exited_nonzero (NotLaunched le)" for out le
    by (auto simp: succeeded_def exited_nonzero_def split: proc_outcome.splits)
  have lastin: "\<not> (\<forall>out \<in> set (map snd new). succeeded out)"
    if "new \<noteq> []" "\<not> succeeded (snd (last new))"
    using that last_in_set[of new] by auto
  have a: "spawned s' = spawned s @ new"
    using whole run n1 sp0 by (auto split: sum.splits if_splits simp: print_def)
  have b: "r = Inr True \<longleftrightarrow> (\<forall>out \<in> set (map snd new). succeeded out)"
  proof (cases r1)
    case (Inl e)
    with n5 obtain le where "new \<noteq> []" "snd (last new) = NotLaunched le" by auto
    with lastin excl(2) have "\<not> (\<forall>out \<in> set (map snd new). succeeded out)" by metis
    with Inl whole run show ?thesis by auto
  next
    case (Inr b)
    show ?thesis
    proof (cases b)
      case True
      with Inr whole run n5 show ?thesis by auto
    next
      case False
      with Inr n5 have "new \<noteq> []" "exited_nonzero (snd (last new))" by auto
      with lastin excl(1) have "\<not> (\<forall>out \<in> set (map snd new). succeeded out)" by metis
      with Inr False whole run show ?thesis by auto
    qed
  qed
  have c: "r = Inr True \<longrightarrow> length new = length steps"
    using whole run n5 by (auto split: sum.splits if_splits)
  have d: "r = Inr False \<longleftrightarrow> new \<noteq> [] \<and> exited_nonzero (snd (last new))"
  proof (cases r1)
    case (Inl e)
    with n5 obtain le where "snd (last new) = NotLaunched le" by auto
    with excl(3) have "\<not> exited_nonzero (snd (last new))" by simp
    with Inl whole run show ?thesis by auto
  next
    case (Inr b)
    show ?thesis
    proof (cases b)
      case True
      with Inr n5 have all: "\<forall>out \<in> set (map snd new). succeeded out" by auto
      have "\<not> (new \<noteq> [] \<and> exited_nonzero (snd (last new)))"
        using all lastin excl(1) by metis
      with Inr True whole run show ?thesis by auto
    next
      case False
      with Inr whole run n5 show ?thesis by auto
    qed
  qed
  have e: "r = Inr False \<longrightarrow>
        last (printed s') = glyph_fail @ '' Pipeline failed at: '' @ snd (steps ! (length new - 1))"
    using whole run n5 by (auto split: sum.splits if_splits)
  show ?thesis
    using a b c d e n2 n3 n4 by blast
qed

lemma three_steps_run:
  "fst (run_dbt_pipeline_with (failing [(Shell ''B'', 1, ''boom'')]) three_steps project_dir_world) = Inr False"
  "map fst (spawned (snd (run_dbt_pipeline_with (failing [(Shell ''B'', 1, ''boom'')]) three_steps project_dir_world)))
     = [Shell ''A'', Shell ''B'']"
  by (simp_all add: run_dbt_pipeline_with_def three_steps_def project_dir_world_def blank_def
       os_chdir_def node_at_def prog_defs run_command_def subprocess_run_def failing_def)

theorem run_dbt_pipeline_stops_at_first_failure_witness:
  "node_at (files project_dir_world) ''my_project'' = Some Dir \<and>
   (\<exists>new. spawned (snd (run_dbt_pipeline_with (failing [(Shell ''B'', 1, ''boom'')]) three_steps project_dir_world))
            = spawned project_dir_world @ new \<and>
          map fst new = [Shell ''A'', Shell ''B''] \<and>
          exited_nonzero (snd (last new)) \<and>
          last (printed (snd (run_dbt_pipeline_with (failing [(Shell ''B'', 1, ''boom'')]) three_steps project_dir_world)))
            = glyph_fail @ '' Pipeline failed at: '' @ snd (three_steps ! (length new - 1)))"
proof -
  define R where "R = run_dbt_pipeline_with (failing [(Shell ''B'', 1, ''boom'')]) three_steps project_dir_world"
  define line where "line = (\<lambda>n. glyph_fail @ '' Pipeline failed at: '' @ snd (three_steps ! (n - 1)))"
  have dir: "node_at (files project_dir_world) ''my_project'' = Some Dir"
    by (simp add: project_dir_world_def blank_def node_at_def)
  have run: "run_dbt_pipeline_with (failing [(Shell ''B'', 1, ''boom'')]) three_steps project_dir_world
               = (fst R, snd R)"
    by (simp add: R_def)
  have r: "fst R = Inr False" and sp: "map fst (spawned (snd R)) = [Shell ''A'', Shell ''B'']"
    unfolding R_def by (rule three_steps_run)+
  have sp0: "spawned project_dir_world = []"
    by (simp add: project_dir_world_def blank_def)
  from run_dbt_pipeline_stops_at_first_failure [OF dir run] obtain new where
    a: "spawned (snd R) = spawned project_dir_world @ new" and
    b: "fst R = Inr False \<longleftrightarrow> new \<noteq> [] \<and> exited_nonzero (snd (last new))" and
    c: "fst R = Inr False \<longrightarrow> last (printed (snd R)) = line (length new)"
    unfolding line_def by (elim exE conjE)
  from a sp sp0 have d: "map fst new = [Shell ''A'', Shell ''B'']" by simp
  from b r have e: "exited_nonzero (snd (last new))" by simp
  from c r have f: "last (printed (snd R)) = line (length new)" by simp
  have "\<exists>new. spawned (snd R) = spawned project_dir_world @ new \<and>
          map fst new = [Shell ''A'', Shell ''B''] \<and>
          exited_nonzero (snd (last new)) \<and>
          last (printed (snd R)) = line (length new)"
    using a d e f by (intro exI[of _ new] conjI)
  with dir show ?thesis
    unfolding R_def line_def by (intro conjI)
qed

subsection \<open>The role bindings\<close>

lemma assign_roles_trace:
  "assign_roles ex project_id rs s = (r, s') \<Longrightarrow>
   \<exists>new. spawned s' = spawned s @ new \<and> length new \<le> length rs \<and>
     map fst new = map (role_command project_id) (take (length new) rs) \<and>
     printed s' = printed s @ role_lines project_id rs (map snd new) \<and>
     (case r of
        Inr u \<Rightarrow> length new = length rs
      | Inl e \<Rightarrow> new \<noteq> [] \<and> (\<exists>le. snd (last new) = NotLaunched le))"
proof (induction rs arbitrary: s)
  case Nil
  then show ?case by (auto simp: prog_defs)
next
  case (Cons role rest)
  obtain out fs' w' where
    ex: "ex (role_command project_id role) (workdir s) (files s, outside s) = (out, (fs', w'))"
    by (metis surj_pair)
  show ?case
  proof (cases out)
    case (NotLaunched le)
    have "assign_roles ex project_id (role # rest) s =
      (Inl (exn_of_launch le),
       s\<lparr>files := fs', outside := w',
         spawned := spawned s @ [(role_command project_id role, NotLaunched le)]\<rparr>)"
      using ex NotLaunched by (cases le) (simp_all add: subprocess_run_not_launched)
    with Cons.prems show ?thesis
      by (auto intro!: exI[of _ "[(role_command project_id role, NotLaunched le)]"])
  next
    case (Completed rc so se)
    define line where "line = (if rc = 0 then glyph_ok @ '' Assigned role: '' @ role
     else glyph_fail @ '' Failed to assign role '' @ role @ '': ''
            @ str_exn (CalledProcessError rc (role_command project_id role) None None))"
    define s1 where "s1 = s\<lparr>files := fs', outside := w',
         spawned := spawned s @ [(role_command project_id role, Completed rc so se)],
         printed := printed s @ [line]\<rparr>"
    have step: "assign_roles ex project_id (role # rest) s = assign_roles ex project_id rest s1"
      using ex Completed
      by (simp add: subprocess_run_completed prog_defs s1_def line_def)
    with Cons.prems have "assign_roles ex project_id rest s1 = (r, s')" by simp
    from Cons.IH[OF this] obtain new where
      n1: "spawned s' = spawned s1 @ new" and n2: "length new \<le> length rest" and
      n3: "map fst new = map (role_command project_id) (take (length new) rest)" and
      n4: "printed s' = printed s1 @ role_lines project_id rest (map snd new)" and
      n5: "case r of Inr u \<Rightarrow> length new = length rest
           | Inl e \<Rightarrow> new \<noteq> [] \<and> (\<exists>le. snd (last new) = NotLaunched le)"
      by blast
    show ?thesis
      using n1 n2 n3 n4 n5
      by (intro exI[of _ "(role_command project_id role, Completed rc so se) # new"])
         (auto simp: s1_def line_def split: sum.splits)
  qed
qed

text \<open>
  C4. The role loop of \<open>create_service_account\<close>, for any list of roles (the script's own
  list is \<open>roles\<close>): when the account was created and every binding command could be
  launched, then whatever status each binding command ended with, a binding command was
  launched for every role, in order, each failure was printed, and the function returns
  the account's address (it neither raises nor returns \<^verbatim>\<open>None\<close>).
\<close>

theorem every_role_is_attempted:
  assumes created: "ex (create_account_command project_id) (workdir s) (files s, outside s)
                      = (Completed 0 so se, env1)"
    and run: "create_service_account_with ex project_id rs s = (r, s')"
    and launched: "\<forall>out \<in> set (map snd (drop (Suc (length (spawned s))) (spawned s'))).
                     \<exists>rc so se. out = Completed rc so se"
  shows "r = Inr (Some (service_account_email project_id)) \<and>
         map fst (drop (length (spawned s)) (spawned s'))
           = create_account_command project_id # map (role_command project_id) rs \<and>
         printed s' = printed s @
           [''\<newline>'' @ replicate 60 CHR ''='', ''STEP 3: Creating Service Account'', replicate 60 CHR ''='',
            glyph_ok @ '' Created service account: '' @ service_account_name]
           @ role_lines project_id rs (map snd (drop (Suc (length (spawned s))) (spawned s')))"
proof -
  obtain fs1 w1 where env1: "env1 = (fs1, w1)" by (cases env1)
  define s1 where "s1 = s\<lparr>files := fs1, outside := w1,
       spawned := spawned s @ [(create_account_command project_id, Completed 0 so se)],
       printed := printed s @
           [''\<newline>'' @ replicate 60 CHR ''='', ''STEP 3: Creating Service Account'', replicate 60 CHR ''='',
            glyph_ok @ '' Created service account: '' @ service_account_name]\<rparr>"
  obtain r1 s2 where roles: "assign_roles ex project_id rs s1 = (r1, s2)"
    by (cases "assign_roles ex project_id rs s1")
  have str3: "str_int 3 = ''3''" by (simp add: str_int_def str_nat.simps)
  have whole: "create_service_account_with ex project_id rs s =
    (case r1 of Inl e \<Rightarrow> (Inl e, s2) | Inr u \<Rightarrow> (Inr (Some (service_account_email project_id)), s2))"
    using created env1 roles
    by (simp add: create_service_account_with_def print_step_def prog_defs str3
          subprocess_run_completed s1_def split: sum.splits)
  from assign_roles_trace[OF roles] obtain new where
      n1: "spawned s2 = spawned s1 @ new" and n2: "length new \<le> length rs" and
      n3: "map fst new = map (role_command project_id) (take (length new) rs)" and
      n4: "printed s2 = printed s1 @ role_lines project_id rs (map snd new)" and
      n5: "case r1 of Inr u \<Rightarrow> length new = length rs
           | Inl e \<Rightarrow> new \<noteq> [] \<and> (\<exists>le. snd (last new) = NotLaunched le)"
    by blast
  have s': "s' = s2" using whole run by (auto split: sum.splits)
  have sp: "spawned s' = spawned s @ (create_account_command project_id, Completed 0 so se) # new"
    using n1 s' by (simp add: s1_def)
  then have dr: "drop (Suc (length (spawned s))) (spawned s') = new"
    and dr0: "drop (length (spawned s)) (spawned s') = (create_account_command project_id, Completed 0 so se) # new"
    by simp_all
  have noraise: "\<exists>u. r1 = Inr u"
  proof (cases r1)
    case (Inl e)
    with n5 obtain le where le: "new \<noteq> []" "snd (last new) = NotLaunched le" by auto
    from le(1) have "last new \<in> set new" by simp
    then have "snd (last new) \<in> set (map snd new)"
      unfolding set_map by (rule imageI)
    with launched dr obtain rc so se where "snd (last new) = Completed rc so se" by blast
    with le show ?thesis by simp
  qed simp
  then obtain u where r1: "r1 = Inr u" by blast
  with n5 have "length new = length rs" by simp
  with n3 have "map fst new = map (role_command project_id) rs" by simp
  with whole run r1 dr dr0 n4 s' show ?thesis by (simp add: s1_def)
qed

lemma three_roles_run:
  "map fst (spawned (snd (create_service_account_with
       (failing [(role_command ''acme'' ''roleB'', 1, ''denied'')]) ''acme'' three_roles blank)))
     = [create_account_command ''acme'', role_command ''acme'' ''roleA'',
        role_command ''acme'' ''roleB'', role_command ''acme'' ''roleC'']"
  "map snd (spawned (snd (create_service_account_with
       (failing [(role_command ''acme'' ''roleB'', 1, ''denied'')]) ''acme'' three_roles blank)))
     = [Completed 0 [] [], Completed 0 [] [], Completed 1 [] ''denied'', Completed 0 [] []]"
  by (simp_all add: create_service_account_with_def print_step_def three_roles_def blank_def
       prog_defs subprocess_run_def failing_def role_command_def create_account_command_def
       service_account_email_def service_account_name_def)

theorem every_role_is_attempted_witness:
  "fst (create_service_account_with
       (failing [(role_command ''acme'' ''roleB'', 1, ''denied'')]) ''acme'' three_roles blank)
     = Inr (Some (service_account_email ''acme'')) \<and>
   map fst (drop (length (spawned blank)) (spawned (snd (create_service_account_with
       (failing [(role_command ''acme'' ''roleB'', 1, ''denied'')]) ''acme'' three_roles blank))))
     = create_account_command ''acme'' # map (role_command ''acme'') three_roles"
proof -
  let ?ex = "failing [(role_command ''acme'' ''roleB'', 1, ''denied'')]"
  have created: "?ex (create_account_command ''acme'') (workdir blank) (files blank, outside blank)
                   = (Completed 0 [] [], (files blank, outside blank))"
    by (simp add: failing_def role_command_def create_account_command_def)
  have run: "create_service_account_with ?ex ''acme'' three_roles blank =
    (fst (create_service_account_with ?ex ''acme'' three_roles blank),
     snd (create_service_account_with ?ex ''acme'' three_roles blank))"
    by simp
  have "spawned blank = []" by (simp add: blank_def)
  then have launched: "\<forall>out \<in> set (map snd (drop (Suc (length (spawned blank)))
       (spawned (snd (create_service_account_with ?ex ''acme'' three_roles blank))))).
          \<exists>rc so se. out = Completed rc so se"
    using three_roles_run(2) by (simp add: drop_map [symmetric])
  show ?thesis
    using every_role_is_attempted [OF created run launched] by simp
qed

subsection \<open>The preflight validator\<close>

text \<open>
  C7. \<open>validate_dbt_project\<close> looks at \<^verbatim>\<open>my_project/dbt_project.yml\<close> first and at
  \<^verbatim>\<open>profiles.yml\<close> second. When the first is missing it returns \<^verbatim>\<open>False\<close>, the line
  printed names the first, and the second was not looked at; when only the second is
  missing it returns \<^verbatim>\<open>False\<close> and the line printed names the second.
\<close>

theorem validate_names_first_missing_path:
  "(node_at (files s) ''my_project/dbt_project.yml'' = None \<longrightarrow>
      validate_dbt_project s =
        (Inr False,
         s\<lparr>probed := probed s @ [''my_project/dbt_project.yml''],
           printed := printed s @ [glyph_lens @ '' Validating dbt project...'',
                                   glyph_fail @ '' dbt_project.yml not found'']\<rparr>)) \<and>
   (node_at (files s) ''my_project/dbt_project.yml'' \<noteq> None \<and>
    node_at (files s) ''profiles.yml'' = None \<longrightarrow>
      validate_dbt_project s =
        (Inr False,
         s\<lparr>probed := probed s @ [''my_project/dbt_project.yml'', ''profiles.yml''],
           printed := printed s @ [glyph_lens @ '' Validating dbt project...'',
             glyph_fail @ '' profiles.yml not found. Please create it with your Google Cloud credentials.'']\<rparr>))"
  by (simp add: validate_dbt_project_def path_exists_def prog_defs)

theorem validate_names_first_missing_path_witness:
  "validate_dbt_project blank =
     (Inr False,
      blank\<lparr>probed := [''my_project/dbt_project.yml''],
            printed := [glyph_lens @ '' Validating dbt project...'',
                        glyph_fail @ '' dbt_project.yml not found'']\<rparr>) \<and>
   validate_dbt_project (blank\<lparr>files := [''my_project/dbt_project.yml'' \<mapsto> File ''name: x'']\<rparr>) =
     (Inr False,
      blank\<lparr>files := [''my_project/dbt_project.yml'' \<mapsto> File ''name: x''],
        probed := [''my_project/dbt_project.yml'', ''profiles.yml''],
        printed := [glyph_lens @ '' Validating dbt project...'',
          glyph_fail @ '' profiles.yml not found. Please create it with your Google Cloud credentials.'']\<rparr>)"
  using validate_names_first_missing_path [of blank]
        validate_names_first_missing_path
          [of "blank\<lparr>files := [''my_project/dbt_project.yml'' \<mapsto> File ''name: x'']\<rparr>"]
  by (simp add: blank_def node_at_def)

subsection \<open>Downloading to a bare file name\<close>

lemma makedirs_empty: "makedirs [] fs = (Some (FileNotFoundError []), fs)"
  by (simp add: makedirs.simps posix_split_def mkdir_exist_ok_def os_mkdir_def node_at_def)

text \<open>
  C10. When \<open>local_path\<close> has no directory part, \<open>download_csv_from_github\<close> returns
  \<^verbatim>\<open>False\<close> and writes no file, whatever the server answers; after an answer with a
  status from 200 to 299 the line printed is the error of \<^verbatim>\<open>os.makedirs('')\<close>.
\<close>

theorem download_to_bare_file_name_fails:
  assumes "posix_dirname local_path = []"
  shows "fst (download_csv_from_github get repo_url file_path local_path s) = Inr False \<and>
         files (snd (download_csv_from_github get repo_url file_path local_path s)) = files s \<and>
         (\<forall>status reason body w'.
            get (repo_url @ ''/raw/main/'' @ file_path) (outside s) = (Response status reason body, w')
            \<and> 200 \<le> status \<and> status < 300 \<longrightarrow>
            printed (snd (download_csv_from_github get repo_url file_path local_path s)) =
              printed s @ [glyph_inbox @ '' Downloading '' @ file_path @ '' from '' @ repo_url @ ''...'',
                           glyph_fail @ '' Failed to download '' @ file_path @ '': ''
                             @ ''[Errno 2] No such file or directory: '' @ [CHR 0x27, CHR 0x27]])"
proof -
  obtain ans w' where g: "get (repo_url @ ''/raw/main/'' @ file_path) (outside s) = (ans, w')"
    by (metis surj_pair)
  have repr: "py_repr [] = [CHR 0x27, CHR 0x27]"
    by (simp add: py_repr_def repr_quote_def Let_def)
  show ?thesis
  proof (cases ans)
    case (Unreachable m)
    with g assms show ?thesis
      by (simp add: download_csv_from_github_def requests_get_def prog_defs)
  next
    case (Response status reason body)
    with g assms show ?thesis
      by (simp add: download_csv_from_github_def requests_get_def raise_for_status_def
            do_makedirs_def makedirs_empty prog_defs repr)
  qed
qed

theorem download_to_bare_file_name_fails_witness:
  "posix_dirname ''patients.csv'' = [] \<and>
   fst (download_csv_from_github (answering 200 ''OK'' ''id,name'') ''https://github.com/your-org/healthcare-data''
          ''data/patients.csv'' ''patients.csv'' blank) = Inr False \<and>
   printed (snd (download_csv_from_github (answering 200 ''OK'' ''id,name'') ''https://github.com/your-org/healthcare-data''
          ''data/patients.csv'' ''patients.csv'' blank)) =
     [''[inbox] Downloading data/patients.csv from https://github.com/your-org/healthcare-data...'',
      ''[x] Failed to download data/patients.csv: [Errno 2] No such file or directory: '' @ [CHR 0x27, CHR 0x27]]"
proof -
  have h: "posix_dirname ''patients.csv'' = []"
    by (simp add: posix_dirname_def posix_split_def)
  show ?thesis
    using h download_to_bare_file_name_fails
             [OF h, of "answering 200 ''OK'' ''id,name''" "''https://github.com/your-org/healthcare-data''"
                "''data/patients.csv''" blank]
    by (simp add: answering_def blank_def)
qed

text \<open>With a directory part the same download succeeds.\<close>

lemma download_ok_example:
  "fst (download_csv_from_github (answering 200 ''OK'' ''id,name'') ''https://github.com/your-org/healthcare-data''
          ''data/patients.csv'' ''my_project/seeds/patients.csv'' blank) = Inr True"
  by (simp add: download_csv_from_github_def requests_get_def raise_for_status_def
            do_makedirs_def do_write_def write_file_def makedirs.simps posix_dirname_def posix_split_def rstrip_char_def
            mkdir_exist_ok_def os_mkdir_def node_at_def prog_defs answering_def blank_def)

subsection \<open>Literal replacement\<close>

lemma unborderedD:
  "unbordered tok \<Longrightarrow> prefix t tok \<Longrightarrow> suffix t tok \<Longrightarrow> t = [] \<or> t = tok"
  by (auto simp: unbordered_def list_all_iff in_set_prefixes)

lemma overlap_freeD1:
  "overlap_free tok v \<Longrightarrow> suffix w v \<Longrightarrow> w \<noteq> [] \<Longrightarrow> \<not> prefix w tok \<and> \<not> prefix tok w"
  by (auto simp: overlap_free_def list_all_iff in_set_suffixes)

lemma overlap_freeD2:
  "overlap_free tok v \<Longrightarrow> suffix t tok \<Longrightarrow> t \<noteq> [] \<Longrightarrow> \<not> prefix t v \<and> \<not> prefix v t"
  by (auto simp: overlap_free_def list_all_iff in_set_suffixes)

lemma py_replace_Cons:
  "old \<noteq> [] \<Longrightarrow> prefix old (c # cs) \<Longrightarrow>
     py_replace (c # cs) old new = new @ py_replace (drop (length old) (c # cs)) old new"
  "old \<noteq> [] \<Longrightarrow> \<not> prefix old (c # cs) \<Longrightarrow>
     py_replace (c # cs) old new = c # py_replace cs old new"
  by (simp_all add: py_replace.simps)

lemma py_replace_absent:
  "old \<noteq> [] \<Longrightarrow> \<not> sublist old s \<Longrightarrow> py_replace s old new = s"
proof (induction s)
  case Nil
  then show ?case by simp
next
  case (Cons c cs)
  from Cons.prems have "\<not> prefix old (c # cs)" and "\<not> sublist old cs"
    by (auto simp: sublist_Cons_right)
  with Cons show ?case by (simp add: py_replace_Cons)
qed

lemma py_replace_at_token:
  "old \<noteq> [] \<Longrightarrow> py_replace (old @ z) old new = new @ py_replace z old new"
  by (cases old) (simp_all add: py_replace.simps)

text \<open>No occurrence of an unbordered token starts inside a token-free text that is
  followed by the token.\<close>

lemma no_early_match:
  assumes "unbordered old" and "\<not> sublist old (c # u)"
  shows "\<not> prefix old ((c # u) @ old @ z)"
proof
  assume p: "prefix old ((c # u) @ old @ z)"
  from assms(2) have np: "\<not> prefix old (c # u)" by (auto simp: sublist_Cons_right)
  with p prefix_append[of old "c # u" "old @ z"]
  obtain t where t: "old = (c # u) @ t" "prefix t (old @ z)"
    by blast
  from t(1) have "length t < length old" by simp
  with t(2) have "prefix t old"
    by (metis append_eq_append_conv_if append_take_drop_id less_imp_le_nat prefix_def take_is_prefix)
  moreover from t(1) have "suffix t old" by (simp add: suffix_def)
  ultimately have "t = [] \<or> t = old" using assms(1) unborderedD by blast
  with t(1) np show False by auto
qed

lemma py_replace_scan:
  assumes "old \<noteq> []" "unbordered old" "\<not> sublist old u"
  shows "py_replace (u @ old @ z) old new = u @ new @ py_replace z old new"
  using assms(3)
proof (induction u)
  case Nil
  with assms(1) show ?case by (simp add: py_replace_at_token)
next
  case (Cons c u)
  from Cons.prems have "\<not> sublist old u" by (auto simp: sublist_Cons_right)
  moreover from no_early_match[OF assms(2) Cons.prems]
  have "\<not> prefix old (c # (u @ old @ z))" by simp
  ultimately show ?case using Cons.IH assms(1) by (simp add: py_replace_Cons)
qed

lemma py_replace_join:
  assumes "old \<noteq> []" "unbordered old" "\<forall>u \<in> set us. \<not> sublist old u"
  shows "py_replace (join_with old us) old new = join_with new us"
  using assms(3)
proof (induction us)
  case Nil
  with assms(1) show ?case by simp
next
  case (Cons u us)
  show ?case
  proof (cases us)
    case Nil
    with Cons.prems assms(1) show ?thesis by (simp add: py_replace_absent)
  next
    case (Cons y ys)
    with Cons.prems Cons.IH assms(1,2) show ?thesis by (simp add: py_replace_scan)
  qed
qed

lemma py_replace_prefix:
  "old \<noteq> [] \<Longrightarrow> prefix p (py_replace s old new) \<Longrightarrow>
     prefix p s \<or> (\<exists>u v. p = u @ v \<and> v \<noteq> [] \<and> (prefix v new \<or> prefix new v))"
proof (induction s arbitrary: p rule: length_induct)
  case (1 s)
  show ?case
  proof (cases s)
    case Nil
    with 1 show ?thesis by simp
  next
    case (Cons c cs)
    show ?thesis
    proof (cases "prefix old (c # cs)")
      case True
      with 1(2,3) Cons have "prefix p (new @ py_replace (drop (length old) (c # cs)) old new)"
        by (simp add: py_replace_Cons)
      then have "prefix p new \<or> prefix new p" by (auto simp: prefix_append)
      then show ?thesis
        by (cases "p = []") (auto intro: exI[of _ "[]"])
    next
      case False
      with 1(2,3) Cons have pp: "prefix p (c # py_replace cs old new)"
        by (simp add: py_replace_Cons)
      show ?thesis
      proof (cases p)
        case Nil
        then show ?thesis by simp
      next
        case (Cons d p')
        with pp have d: "d = c" and p': "prefix p' (py_replace cs old new)" by simp_all
        from 1(1) \<open>s = c # cs\<close> 1(2) p'
        have "prefix p' cs \<or> (\<exists>u v. p' = u @ v \<and> v \<noteq> [] \<and> (prefix v new \<or> prefix new v))"
          by simp
        then show ?thesis
        proof
          assume "prefix p' cs"
          with d Cons \<open>s = c # cs\<close> show ?thesis by simp
        next
          assume "\<exists>u v. p' = u @ v \<and> v \<noteq> [] \<and> (prefix v new \<or> prefix new v)"
          then obtain u v where "p' = u @ v" "v \<noteq> []" "prefix v new \<or> prefix new v" by blast
          then have "p = (d # u) @ v \<and> v \<noteq> [] \<and> (prefix v new \<or> prefix new v)"
            using Cons by simp
          then show ?thesis by blast
        qed
      qed
    qed
  qed
qed

lemma py_replace_token_free:
  assumes "old \<noteq> []" "t \<noteq> []" "overlap_free t new"
  shows "t = old \<or> \<not> sublist t s \<Longrightarrow> \<not> sublist t (py_replace s old new)"
proof (induction s rule: length_induct)
  case (1 s)
  show ?case
  proof (cases s)
    case Nil
    with assms show ?thesis by simp
  next
    case (Cons c cs)
    have not_prefix: "\<not> prefix t (py_replace s old new)" if "\<not> prefix old s"
    proof
      assume "prefix t (py_replace s old new)"
      from py_replace_prefix[OF assms(1) this]
      consider "prefix t s" | u v where "t = u @ v" "v \<noteq> []" "prefix v new \<or> prefix new v"
        by blast
      then show False
      proof cases
        case 1
        with that "1.prems" show False by auto
      next
        case 2
        from 2(1) have "suffix v t" by (simp add: suffix_def)
        from overlap_freeD2[OF assms(3) this 2(2)] 2(3) show False by simp
      qed
    qed
    show ?thesis
    proof (cases "prefix old (c # cs)")
      case True
      define rest where "rest = drop (length old) (c # cs)"
      have r: "py_replace s old new = new @ py_replace rest old new"
        using True Cons assms(1) by (simp add: py_replace_Cons rest_def)
      have "length rest < length s"
        using assms(1) Cons by (simp add: rest_def)
      moreover have "t = old \<or> \<not> sublist t rest"
        using "1.prems" Cons sublist_drop[of "length old" "c # cs"]
        by (auto simp: rest_def dest: sublist_order.order_trans)
      ultimately have ih: "\<not> sublist t (py_replace rest old new)"
        using "1.IH" by blast
      show ?thesis
      proof
        assume "sublist t (py_replace s old new)"
        then have "sublist t (new @ py_replace rest old new)" by (simp add: r)
        then consider "sublist t new" | "sublist t (py_replace rest old new)"
          | t1 t2 where "t = t1 @ t2" "suffix t1 new" "prefix t2 (py_replace rest old new)"
          by (auto simp: sublist_append)
        then show False
        proof cases
          case 1
          then obtain w where w: "suffix w new" "prefix t w"
            by (auto simp: sublist_altdef')
          with assms(2) have "w \<noteq> []" by auto
          from overlap_freeD1[OF assms(3) w(1) this] w(2) show False by simp
        next
          case 2
          with ih show False by simp
        next
          case 3
          show False
          proof (cases "t1 = []")
            case True
            with 3 have "prefix t (py_replace rest old new)" by simp
            with ih show False by auto
          next
            case False
            from 3(1) have "prefix t1 t" by simp
            with overlap_freeD1[OF assms(3) 3(2) False] show False by simp
          qed
        qed
      qed
    next
      case False
      have r: "py_replace s old new = c # py_replace cs old new"
        using False Cons assms(1) by (simp add: py_replace_Cons)
      have "t = old \<or> \<not> sublist t cs"
        using "1.prems" Cons by (auto simp: sublist_Cons_right)
      moreover have "length cs < length s" using Cons by simp
      ultimately have ih: "\<not> sublist t (py_replace cs old new)"
        using "1.IH" by blast
      from not_prefix False Cons have np: "\<not> prefix t (py_replace s old new)"
        by simp
      show ?thesis
        using np ih unfolding r by (simp add: sublist_Cons_right)
    qed
  qed
qed

subsection \<open>The configuration rewriter\<close>

lemma tokens_nonempty: "project_token \<noteq> []" "key_path_token \<noteq> []"
  by (simp_all add: project_token_def key_path_token_def)

lemma tokens_unbordered: "unbordered project_token" "unbordered key_path_token"
  unfolding unbordered_def project_token_def key_path_token_def by code_simp+

lemma str_5: "str_int 5 = ''5''"
  by (simp add: str_int_def str_nat.simps)

lemma update_quick_cases:
  "node_at (files s) quick_profiles_file = None \<Longrightarrow>
     update_profiles_yml_quick pid key s =
       (Inr False, s\<lparr>probed := probed s @ [quick_profiles_file],
                     printed := printed s @ [glyph_fail @ '' profiles.yml not found!'']\<rparr>)"
  "node_at (files s) quick_profiles_file = Some Dir \<Longrightarrow>
     update_profiles_yml_quick pid key s =
       (Inl (IsADirectoryError quick_profiles_file), s\<lparr>probed := probed s @ [quick_profiles_file]\<rparr>)"
  "node_at (files s) quick_profiles_file = Some (File c) \<Longrightarrow>
     update_profiles_yml_quick pid key s =
       (Inr True,
        s\<lparr>probed := probed s @ [quick_profiles_file],
          files := (files s)(quick_profiles_file \<mapsto> File (replace_placeholders c pid key)),
          printed := printed s @ [glyph_ok @ '' Updated profiles.yml with:'',
                                  ''   Project ID: '' @ pid, ''   Key file: '' @ key]\<rparr>)"
  by (simp_all add: update_profiles_yml_quick_def path_exists_def do_read_def read_file_def
        do_write_def write_file_def prog_defs node_at_def split: if_splits)

lemma update_gcp_cases:
  "node_at (files s) (path_join d ''profiles.yml'') = None \<Longrightarrow>
     fst (update_profiles_yml_gcp d pid key s) = Inr False \<and>
     files (snd (update_profiles_yml_gcp d pid key s)) = files s \<and>
     printed (snd (update_profiles_yml_gcp d pid key s)) =
       printed s @ [''\<newline>'' @ replicate 60 CHR ''='', ''STEP 5: Updating dbt Configuration'',
                    replicate 60 CHR ''='',
                    glyph_fail @ '' profiles.yml not found at '' @ path_join d ''profiles.yml'']"
  "node_at (files s) (path_join d ''profiles.yml'') = Some Dir \<Longrightarrow>
     fst (update_profiles_yml_gcp d pid key s) = Inl (IsADirectoryError (path_join d ''profiles.yml''))"
  "node_at (files s) (path_join d ''profiles.yml'') = Some (File c) \<Longrightarrow>
     fst (update_profiles_yml_gcp d pid key s) = Inr True \<and>
     files (snd (update_profiles_yml_gcp d pid key s)) =
       (files s)(path_join d ''profiles.yml'' \<mapsto> File (replace_placeholders c pid key)) \<and>
     printed (snd (update_profiles_yml_gcp d pid key s)) =
       printed s @ [''\<newline>'' @ replicate 60 CHR ''='', ''STEP 5: Updating dbt Configuration'',
                    replicate 60 CHR ''='',
                    glyph_ok @ '' Updated profiles.yml with project ID: '' @ pid,
                    glyph_ok @ '' Updated key file path: '' @ key]"
  by (simp_all add: update_profiles_yml_gcp_def print_step_def str_5 path_exists_def do_read_def read_file_def
        do_write_def write_file_def prog_defs node_at_def split: if_splits)

lemma paths_differ: "quick_profiles_file \<noteq> key_path_token" "quick_profiles_file \<noteq> []" "key_path_token \<noteq> []"
  "quick_profiles_file \<noteq> ''profiles.yml''"  "key_path_token \<noteq> ''profiles.yml''"
  by (simp_all add: quick_profiles_file_def key_path_token_def)

lemma template_rewritten:
  "replace_placeholders template ''acme-health'' ''/home/me/key.json'' =
     ''project: acme-health\<newline>dataset: acme-health_dev\<newline>keyfile: /home/me/key.json\<newline>''"
  unfolding replace_placeholders_def template_def project_token_def key_path_token_def by code_simp

lemma template_default_key:
  "replace_placeholders template ''acme-health'' key_path_token =
     ''project: acme-health\<newline>dataset: acme-health_dev\<newline>keyfile: '' @ key_path_token @ ''\<newline>''"
  unfolding replace_placeholders_def template_def project_token_def key_path_token_def by code_simp

lemma strip_examples: "py_strip ''acme-health'' = ''acme-health''" "py_strip [] = []"
  by (simp_all add: py_strip_def py_isspace_def)

text \<open>
  C3. \<open>update_profiles_yml\<close> (both scripts): when the configuration file does not exist
  it returns \<^verbatim>\<open>False\<close> and leaves every file as it was. When the file exists it returns
  \<^verbatim>\<open>True\<close> and the file then holds the result of the two replacements, applied one
  after the other to the whole content. Each of them replaces every occurrence of its
  token: a text that is cut at the occurrences of the token into pieces free of the token
  becomes the same pieces joined by the value. A token that does not occur changes
  nothing, and the call succeeds all the same.
\<close>

theorem update_profiles_yml_replaces_every_occurrence:
  "(node_at (files s) quick_profiles_file = None \<longrightarrow>
      fst (update_profiles_yml_quick pid key s) = Inr False \<and>
      files (snd (update_profiles_yml_quick pid key s)) = files s) \<and>
   (node_at (files s) (path_join d ''profiles.yml'') = None \<longrightarrow>
      fst (update_profiles_yml_gcp d pid key s) = Inr False \<and>
      files (snd (update_profiles_yml_gcp d pid key s)) = files s) \<and>
   (\<forall>c. node_at (files s) quick_profiles_file = Some (File c) \<longrightarrow>
      fst (update_profiles_yml_quick pid key s) = Inr True \<and>
      files (snd (update_profiles_yml_quick pid key s)) =
        (files s)(quick_profiles_file \<mapsto>
           File (py_replace (py_replace c project_token pid) key_path_token key))) \<and>
   (\<forall>c. node_at (files s) (path_join d ''profiles.yml'') = Some (File c) \<longrightarrow>
      fst (update_profiles_yml_gcp d pid key s) = Inr True \<and>
      files (snd (update_profiles_yml_gcp d pid key s)) =
        (files s)(path_join d ''profiles.yml'' \<mapsto>
           File (py_replace (py_replace c project_token pid) key_path_token key))) \<and>
   (\<forall>tok \<in> {project_token, key_path_token}. \<forall>us v.
      (\<forall>u \<in> set us. \<not> sublist tok u) \<longrightarrow>
      py_replace (join_with tok us) tok v = join_with v us) \<and>
   (\<forall>tok \<in> {project_token, key_path_token}. \<forall>t v.
      \<not> sublist tok t \<longrightarrow> py_replace t tok v = t)"
proof -
  have a: "node_at (files s) quick_profiles_file = None \<longrightarrow>
      fst (update_profiles_yml_quick pid key s) = Inr False \<and>
      files (snd (update_profiles_yml_quick pid key s)) = files s"
    by (simp add: update_quick_cases)
  have b: "node_at (files s) (path_join d ''profiles.yml'') = None \<longrightarrow>
      fst (update_profiles_yml_gcp d pid key s) = Inr False \<and>
      files (snd (update_profiles_yml_gcp d pid key s)) = files s"
    using update_gcp_cases(1)[of s d pid key] by simp
  have c: "\<forall>c. node_at (files s) quick_profiles_file = Some (File c) \<longrightarrow>
      fst (update_profiles_yml_quick pid key s) = Inr True \<and>
      files (snd (update_profiles_yml_quick pid key s)) =
        (files s)(quick_profiles_file \<mapsto>
           File (py_replace (py_replace c project_token pid) key_path_token key))"
    by (simp add: update_quick_cases replace_placeholders_def)
  have d: "\<forall>c. node_at (files s) (path_join d ''profiles.yml'') = Some (File c) \<longrightarrow>
      fst (update_profiles_yml_gcp d pid key s) = Inr True \<and>
      files (snd (update_profiles_yml_gcp d pid key s)) =
        (files s)(path_join d ''profiles.yml'' \<mapsto>
           File (py_replace (py_replace c project_token pid) key_path_token key))"
    using update_gcp_cases(3)[of s d _ pid key] by (simp add: replace_placeholders_def)
  have e: "\<forall>tok \<in> {project_token, key_path_token}. \<forall>us v.
      (\<forall>u \<in> set us. \<not> sublist tok u) \<longrightarrow>
      py_replace (join_with tok us) tok v = join_with v us"
    using py_replace_join tokens_nonempty tokens_unbordered by blast
  have f: "\<forall>tok \<in> {project_token, key_path_token}. \<forall>t v.
      \<not> sublist tok t \<longrightarrow> py_replace t tok v = t"
    using py_replace_absent tokens_nonempty by blast
  from a b c d e f show ?thesis by (intro conjI)
qed

lemma template_segments:
  "template = join_with project_token
     [''project: '', ''\<newline>dataset: '', ''_dev\<newline>keyfile: '' @ key_path_token @ ''\<newline>'']"
  by (simp add: template_def project_token_def)

lemma template_segments_free:
  "\<forall>u \<in> set [''project: '', ''\<newline>dataset: '', ''_dev\<newline>keyfile: '' @ key_path_token @ ''\<newline>''].
     \<not> sublist project_token u"
  unfolding project_token_def key_path_token_def by code_simp

theorem update_profiles_yml_replaces_every_occurrence_witness:
  "fst (update_profiles_yml_quick ''acme-health'' ''/home/me/key.json'' blank) = Inr False \<and>
   files (snd (update_profiles_yml_quick ''acme-health'' ''/home/me/key.json'' blank)) = files blank \<and>
   fst (update_profiles_yml_quick ''acme-health'' ''/home/me/key.json'' template_world) = Inr True \<and>
   files (snd (update_profiles_yml_quick ''acme-health'' ''/home/me/key.json'' template_world)) =
     (files template_world)(quick_profiles_file \<mapsto>
        File (py_replace (py_replace template project_token ''acme-health'') key_path_token ''/home/me/key.json'')) \<and>
   py_replace template project_token ''acme-health'' =
     join_with ''acme-health''
       [''project: '', ''\<newline>dataset: '', ''_dev\<newline>keyfile: '' @ key_path_token @ ''\<newline>'']"
proof -
  have w0: "node_at (files blank) quick_profiles_file = None"
    by (simp add: blank_def node_at_def)
  have w: "node_at (files template_world) quick_profiles_file = Some (File template)"
    by (simp add: template_world_def node_at_def paths_differ blank_def)
  have p: "project_token \<in> {project_token, key_path_token}" by simp
  note t0 = update_profiles_yml_replaces_every_occurrence
              [of blank "''acme-health''" "''/home/me/key.json''" "''.''"]
  note t1 = update_profiles_yml_replaces_every_occurrence
              [of template_world "''acme-health''" "''/home/me/key.json''" "''.''"]
  from t0 w0 have a: "fst (update_profiles_yml_quick ''acme-health'' ''/home/me/key.json'' blank) = Inr False \<and>
   files (snd (update_profiles_yml_quick ''acme-health'' ''/home/me/key.json'' blank)) = files blank"
    by blast
  from t1 w have b: "fst (update_profiles_yml_quick ''acme-health'' ''/home/me/key.json'' template_world) = Inr True \<and>
   files (snd (update_profiles_yml_quick ''acme-health'' ''/home/me/key.json'' template_world)) =
     (files template_world)(quick_profiles_file \<mapsto>
        File (py_replace (py_replace template project_token ''acme-health'') key_path_token ''/home/me/key.json''))"
    by blast
  from t1 p template_segments_free
  have "py_replace (join_with project_token
       [''project: '', ''\<newline>dataset: '', ''_dev\<newline>keyfile: '' @ key_path_token @ ''\<newline>''])
        project_token ''acme-health'' =
     join_with ''acme-health''
       [''project: '', ''\<newline>dataset: '', ''_dev\<newline>keyfile: '' @ key_path_token @ ''\<newline>'']"
    by blast
  then have c: "py_replace template project_token ''acme-health'' =
     join_with ''acme-health''
       [''project: '', ''\<newline>dataset: '', ''_dev\<newline>keyfile: '' @ key_path_token @ ''\<newline>'']"
    by (simp only: template_segments)
  from a b c show ?thesis by (intro conjI) blast+
qed

text \<open>
  C8, as stated, fails: \<^verbatim>\<open>quick_setup.py\<close>, asked for a key path, takes the placeholder
  itself as the default. A run with the inputs \<^verbatim>\<open>acme-health\<close> and an empty line succeeds
  and leaves the key-path placeholder in the file.
\<close>

theorem default_key_path_keeps_placeholder:
  "fst (main_quick (template_world\<lparr>keyboard := [''acme-health'', '''']\<rparr>)) = Inr True \<and>
   node_at (files (snd (main_quick (template_world\<lparr>keyboard := [''acme-health'', '''']\<rparr>)))) quick_profiles_file
     = Some (File (''project: acme-health\<newline>dataset: acme-health_dev\<newline>keyfile: '' @ key_path_token @ ''\<newline>'')) \<and>
   sublist key_path_token
     (''project: acme-health\<newline>dataset: acme-health_dev\<newline>keyfile: '' @ key_path_token @ ''\<newline>'')"
proof -
  have "sublist key_path_token
     (''project: acme-health\<newline>dataset: acme-health_dev\<newline>keyfile: '' @ key_path_token @ ''\<newline>'')"
    by (rule sublist_appendI)
  then show ?thesis
    by (simp add: main_quick_def input_def path_exists_def prog_defs strip_examples template_world_def
        blank_def node_at_def paths_differ update_profiles_yml_quick_def do_read_def read_file_def
        do_write_def write_file_def template_default_key)
qed

text \<open>
  C8, amended. For every initial content of the configuration file: after a successful
  rewrite the file holds neither placeholder token, provided the project identifier is
  overlap-free for the project token and the key path is overlap-free for both tokens.
\<close>

theorem no_placeholder_left_without_overlap:
  assumes "overlap_free project_token pid" "overlap_free project_token key"
    "overlap_free key_path_token key"
  shows "(update_profiles_yml_quick pid key s = (Inr True, s') \<longrightarrow>
           (\<exists>c. node_at (files s') quick_profiles_file = Some (File c) \<and>
                \<not> sublist project_token c \<and> \<not> sublist key_path_token c)) \<and>
         (update_profiles_yml_gcp d pid key s = (Inr True, s') \<longrightarrow>
           (\<exists>c. node_at (files s') (path_join d ''profiles.yml'') = Some (File c) \<and>
                \<not> sublist project_token c \<and> \<not> sublist key_path_token c))"
proof -
  have clean: "\<not> sublist project_token (replace_placeholders c pid key) \<and>
               \<not> sublist key_path_token (replace_placeholders c pid key)" for c
  proof -
    have one: "\<not> sublist project_token (py_replace c project_token pid)"
      using py_replace_token_free[OF tokens_nonempty(1) tokens_nonempty(1) assms(1)] by simp
    have "\<not> sublist project_token (py_replace (py_replace c project_token pid) key_path_token key)"
      using py_replace_token_free[OF tokens_nonempty(2) tokens_nonempty(1) assms(2)] one by simp
    moreover
    have "\<not> sublist key_path_token (py_replace (py_replace c project_token pid) key_path_token key)"
      using py_replace_token_free[OF tokens_nonempty(2) tokens_nonempty(2) assms(3)] by simp
    ultimately show ?thesis by (simp add: replace_placeholders_def)
  qed
  have quick: "\<exists>c. node_at (files s') quick_profiles_file = Some (File c) \<and>
                \<not> sublist project_token c \<and> \<not> sublist key_path_token c"
    if run: "update_profiles_yml_quick pid key s = (Inr True, s')"
  proof (cases "node_at (files s) quick_profiles_file")
    case None
    with run show ?thesis by (simp add: update_quick_cases)
  next
    case (Some n)
    show ?thesis
    proof (cases n)
      case Dir
      with Some run show ?thesis by (simp add: update_quick_cases)
    next
      case (File c)
      with Some run have "node_at (files s') quick_profiles_file
          = Some (File (replace_placeholders c pid key))"
        by (auto simp: update_quick_cases node_at_def paths_differ)
      with clean show ?thesis by blast
    qed
  qed
  have gcp: "\<exists>c. node_at (files s') (path_join d ''profiles.yml'') = Some (File c) \<and>
                \<not> sublist project_token c \<and> \<not> sublist key_path_token c"
    if run: "update_profiles_yml_gcp d pid key s = (Inr True, s')"
  proof (cases "node_at (files s) (path_join d ''profiles.yml'')")
    case None
    from update_gcp_cases(1)[OF None, of pid key] run show ?thesis by simp
  next
    case (Some n)
    show ?thesis
    proof (cases n)
      case Dir
      from update_gcp_cases(2)[of s d pid key] Some Dir run show ?thesis by simp
    next
      case (File c)
      from Some File have ne: "path_join d ''profiles.yml'' \<noteq> []"
        by (auto simp: node_at_def split: if_splits)
      from update_gcp_cases(3)[of s d c pid key] Some File run
      have "files s' = (files s)(path_join d ''profiles.yml'' \<mapsto> File (replace_placeholders c pid key))"
        by simp
      with ne have "node_at (files s') (path_join d ''profiles.yml'')
          = Some (File (replace_placeholders c pid key))"
        by (simp add: node_at_def)
      with clean show ?thesis by blast
    qed
  qed
  from quick gcp show ?thesis by blast
qed

lemma witness_values_overlap_free:
  "overlap_free project_token ''acme-health''"
  "overlap_free project_token ''/home/me/key.json''"
  "overlap_free key_path_token ''/home/me/key.json''"
  unfolding overlap_free_def project_token_def key_path_token_def by code_simp+

theorem no_placeholder_left_without_overlap_witness:
  "overlap_free project_token ''acme-health'' \<and>
   overlap_free project_token ''/home/me/key.json'' \<and>
   overlap_free key_path_token ''/home/me/key.json'' \<and>
   fst (update_profiles_yml_quick ''acme-health'' ''/home/me/key.json'' template_world) = Inr True \<and>
   (\<exists>c. node_at (files (snd (update_profiles_yml_quick ''acme-health'' ''/home/me/key.json'' template_world)))
            quick_profiles_file = Some (File c) \<and>
        \<not> sublist project_token c \<and> \<not> sublist key_path_token c)"
proof -
  define R where "R = update_profiles_yml_quick ''acme-health'' ''/home/me/key.json'' template_world"
  have w: "node_at (files template_world) quick_profiles_file = Some (File template)"
    by (simp add: template_world_def node_at_def paths_differ blank_def)
  have r: "fst R = Inr True"
    unfolding R_def by (simp add: update_quick_cases(3)[OF w])
  then have run: "update_profiles_yml_quick ''acme-health'' ''/home/me/key.json'' template_world
                    = (Inr True, snd R)"
    unfolding R_def by (metis prod.collapse)
  from no_placeholder_left_without_overlap
         [OF witness_values_overlap_free, of template_world "snd R" "''.''"] run
  have "\<exists>c. node_at (files (snd R)) quick_profiles_file = Some (File c) \<and>
        \<not> sublist project_token c \<and> \<not> sublist key_path_token c"
    by blast
  with r witness_values_overlap_free show ?thesis
    unfolding R_def by (intro conjI)
qed

lemma sequential_result:
  "replace_placeholders nested_value_content key_path_token ''/k.json'' = ''project: /k.json''"
  unfolding replace_placeholders_def nested_value_content_def project_token_def key_path_token_def
  by code_simp

lemma simultaneous_result:
  "simultaneous_replace [(project_token, key_path_token), (key_path_token, ''/k.json'')] nested_value_content
     = ''project: '' @ key_path_token"
  unfolding nested_value_content_def project_token_def key_path_token_def
  by code_simp

text \<open>
  C9. The file written holds the second replacement applied to the result of the first
  (project token first, key-path token second). With a project identifier that contains
  the key-path token the result differs from a simultaneous replacement of both tokens:
  the key path replaces the token inside the identifier just written.
\<close>

theorem rewriter_applies_substitutions_in_sequence:
  "(\<forall>c. node_at (files s) quick_profiles_file = Some (File c) \<longrightarrow>
      node_at (files (snd (update_profiles_yml_quick pid key s))) quick_profiles_file =
        Some (File (py_replace (py_replace c project_token pid) key_path_token key))) \<and>
   (\<forall>c. node_at (files s) (path_join d ''profiles.yml'') = Some (File c) \<longrightarrow>
      node_at (files (snd (update_profiles_yml_gcp d pid key s))) (path_join d ''profiles.yml'') =
        Some (File (py_replace (py_replace c project_token pid) key_path_token key))) \<and>
   sublist key_path_token key_path_token \<and>
   replace_placeholders nested_value_content key_path_token ''/k.json'' \<noteq>
     simultaneous_replace [(project_token, key_path_token), (key_path_token, ''/k.json'')]
       nested_value_content"
proof -
  have a: "\<forall>c. node_at (files s) quick_profiles_file = Some (File c) \<longrightarrow>
      node_at (files (snd (update_profiles_yml_quick pid key s))) quick_profiles_file =
        Some (File (py_replace (py_replace c project_token pid) key_path_token key))"
    by (simp add: update_quick_cases node_at_def paths_differ replace_placeholders_def)
  have b: "node_at (files (snd (update_profiles_yml_gcp d pid key s))) (path_join d ''profiles.yml'') =
        Some (File (py_replace (py_replace c project_token pid) key_path_token key))"
    if h: "node_at (files s) (path_join d ''profiles.yml'') = Some (File c)" for c
  proof -
    from h have ne: "path_join d ''profiles.yml'' \<noteq> []"
      by (auto simp: node_at_def split: if_splits)
    with update_gcp_cases(3)[OF h, of pid key] show ?thesis
      by (simp add: node_at_def replace_placeholders_def)
  qed
  have c: "replace_placeholders nested_value_content key_path_token ''/k.json'' \<noteq>
     simultaneous_replace [(project_token, key_path_token), (key_path_token, ''/k.json'')]
       nested_value_content"
    unfolding sequential_result simultaneous_result by (simp add: key_path_token_def)
  from a b c show ?thesis by simp
qed

theorem rewriter_applies_substitutions_in_sequence_witness:
  "node_at (files template_world) quick_profiles_file = Some (File template) \<and>
   node_at (files (snd (update_profiles_yml_quick ''acme-health'' ''/home/me/key.json'' template_world)))
       quick_profiles_file =
     Some (File (py_replace (py_replace template project_token ''acme-health'') key_path_token ''/home/me/key.json''))"
proof -
  have w: "node_at (files template_world) quick_profiles_file = Some (File template)"
    by (simp add: template_world_def node_at_def paths_differ blank_def)
  with rewriter_applies_substitutions_in_sequence
         [of template_world "''acme-health''" "''/home/me/key.json''" "''.''"]
  show ?thesis by blast
qed

subsection \<open>Creating the datasets\<close>

lemma str_small: "str_int 1 = ''1''" "str_int 2 = ''2''"
  by (simp_all add: str_int_def str_nat.simps)

lemma dataset_error_text:
  "str_exn (CalledProcessError 1 (dataset_command ''acme'' ''healthcare_data_dev'') None None) =
     ''Command '['bq', 'mk', '--dataset', '--location=US', 'acme:healthcare_data_dev']' returned non-zero exit status 1.''"
  by (simp add: dataset_command_def repr_list_def py_repr_def repr_quote_def repr_char_def
        py_printable_def str_small Let_def)

lemma dataset_error_text_unclassified:
  "\<not> sublist ''already exists''
     ''Command '['bq', 'mk', '--dataset', '--location=US', 'acme:healthcare_data_dev']' returned non-zero exit status 1.''"
  by code_simp

text \<open>
  C1 does not hold of the code. The test \<^verbatim>\<open>"already exists" in str(e)\<close> reads the text of
  the exception, which is made of the command line and the return code; what the command
  wrote about its failure is not captured and is no part of it. Here the first creation
  command ends with status 1 and an error text that says the dataset already exists: the
  function prints a failure, returns \<^verbatim>\<open>False\<close> and never launches the command for the
  second dataset.
\<close>

theorem existing_dataset_aborts_setup:
  "sublist ''already exists'' dataset_exists_text \<and>
   fst (setup_bigquery_datasets dataset_exists_outside ''acme'' blank) = Inr False \<and>
   spawned (snd (setup_bigquery_datasets dataset_exists_outside ''acme'' blank)) =
     [(dataset_command ''acme'' ''healthcare_data_dev'', Completed 1 [] dataset_exists_text)] \<and>
   last (printed (snd (setup_bigquery_datasets dataset_exists_outside ''acme'' blank))) =
     ''[x] Failed to create dataset healthcare_data_dev: Command '['bq', 'mk', '--dataset', '--location=US', 'acme:healthcare_data_dev']' returned non-zero exit status 1.''"
proof -
  have a: "sublist ''already exists'' dataset_exists_text"
    unfolding dataset_exists_text_def by code_simp
  have b: "dataset_exists_outside (dataset_command ''acme'' ''healthcare_data_dev'') wd env
            = (Completed 1 [] dataset_exists_text, env)" for wd env
    by (simp add: dataset_exists_outside_def failing_def)
  have c: "setup_bigquery_datasets dataset_exists_outside ''acme'' blank =
    (Inr False,
     blank\<lparr>spawned := [(dataset_command ''acme'' ''healthcare_data_dev'', Completed 1 [] dataset_exists_text)],
       printed := [''\<newline>'' @ replicate 60 CHR ''='', ''STEP 2: Setting up BigQuery Datasets'',
                   replicate 60 CHR ''='',
                   ''[x] Failed to create dataset healthcare_data_dev: Command '['bq', 'mk', '--dataset', '--location=US', 'acme:healthcare_data_dev']' returned non-zero exit status 1.'']\<rparr>)"
    using dataset_error_text_unclassified
    by (simp add: setup_bigquery_datasets_def setup_bigquery_datasets_with_def datasets_def
          print_step_def prog_defs subprocess_run_def b dataset_error_text str_small blank_def
          del: str_exn.simps)
  from a c show ?thesis by simp
qed

subsection \<open>Fail-fast through the sequencing of calls\<close>

lemma silent_return [simp]: "silent (return_prog v)"
  and silent_raise [simp]: "silent (raise_prog e)"
  and silent_say [simp]: "silent (say line)"
  and silent_path_exists [simp]: "silent (path_exists p)"
  and silent_input [simp]: "silent (input prompt)"
  and silent_do_read [simp]: "silent (do_read p)"
  and silent_do_write [simp]: "silent (do_write p t)"
  and silent_os_chdir [simp]: "silent (os_chdir p)"
  by (auto simp: silent_def prog_defs path_exists_def input_def do_read_def do_write_def os_chdir_def
           split: list.splits prod.splits option.splits node.splits)

lemma silent_bind [simp]:
  "silent m \<Longrightarrow> (\<And>v. silent (f v)) \<Longrightarrow> silent (bind_prog m f)"
  by (auto simp: silent_def bind_prog_def split: prod.splits sum.splits)
     (metis snd_conv)+

lemma silent_if [simp]:
  "(c \<Longrightarrow> silent p) \<Longrightarrow> (\<not> c \<Longrightarrow> silent q) \<Longrightarrow> silent (if c then p else q)"
  by simp

lemma silent_print_step [simp]: "silent (print_step n title)"
  by (simp add: print_step_def)

lemma silent_validate [simp]: "silent validate_dbt_project"
  by (simp add: validate_dbt_project_def)

lemma silent_download_sample_data [simp]: "silent download_sample_data"
  by (simp add: download_sample_data_def)

lemma silent_update_gcp [simp]: "silent (update_profiles_yml_gcp d pid key)"
  by (simp add: update_profiles_yml_gcp_def)

lemma silent_looker [simp]: "silent setup_looker_instructions"
  by (simp add: setup_looker_instructions_def)

lemma orderly_silent: "silent p \<Longrightarrow> orderly P failed p"
  by (auto simp: orderly_def silent_def calm_def intro!: exI[of _ "[]"])

lemma calm_append [simp]: "calm (xs @ ys) \<longleftrightarrow> calm xs \<and> calm ys"
  by (simp add: calm_def)

lemma calm_butlast: "calm xs \<Longrightarrow> calm (butlast xs)"
  by (auto simp: calm_def list_all_iff dest: in_set_butlastD)

lemma calm_whole: "calm (butlast xs) \<Longrightarrow> xs = [] \<or> \<not> fatal (last xs) \<Longrightarrow> calm xs"
  by (cases xs rule: rev_cases) (auto simp: calm_def)

lemma orderly_after_call:
  assumes m: "orderly P (\<lambda>r. \<exists>v. r = Inr v \<and> bad v) m"
    and go: "\<And>v. \<not> bad v \<Longrightarrow> orderly Q failed (f v)"
    and stop: "\<And>v. bad v \<Longrightarrow> halting P Q failed (f v)"
  shows "orderly Q failed (bind_prog m f)"
  unfolding orderly_def
proof
  fix s
  obtain r1 s1 where ms: "m s = (r1, s1)" by (cases "m s")
  from m[unfolded orderly_def, rule_format, of s] ms obtain new1 where
    n1: "spawned s1 = spawned s @ new1" "calm (butlast new1)"
        "new1 \<noteq> [] \<and> fatal (last new1) \<longrightarrow> (\<exists>v. r1 = Inr v \<and> bad v) \<and> P s1"
    by auto
  show "\<exists>new. spawned (snd (bind_prog m f s)) = spawned s @ new \<and> calm (butlast new) \<and>
          (new \<noteq> [] \<and> fatal (last new) \<longrightarrow>
             failed (fst (bind_prog m f s)) \<and> Q (snd (bind_prog m f s)))"
  proof (cases r1)
    case (Inl e)
    with ms have "bind_prog m f s = (Inl e, s1)" by (simp add: bind_prog_def)
    with n1 Inl show ?thesis by (intro exI[of _ new1]) auto
  next
    case (Inr v)
    with ms have b: "bind_prog m f s = f v s1" by (simp add: bind_prog_def)
    show ?thesis
    proof (cases "bad v")
      case True
      from stop[OF True, unfolded halting_def, rule_format, of s1]
      have h: "spawned (snd (f v s1)) = spawned s1" "failed (fst (f v s1))"
              "P s1 \<longrightarrow> Q (snd (f v s1))" by simp_all
      with n1 b show ?thesis by (intro exI[of _ new1]) auto
    next
      case False
      from go[OF False, unfolded orderly_def, rule_format, of s1] obtain new2 where
        n2: "spawned (snd (f v s1)) = spawned s1 @ new2" "calm (butlast new2)"
            "new2 \<noteq> [] \<and> fatal (last new2) \<longrightarrow> failed (fst (f v s1)) \<and> Q (snd (f v s1))"
        by auto
      from n1(3) False Inr have "new1 = [] \<or> \<not> fatal (last new1)" by auto
      with n1(2) have c1: "calm new1" by (rule calm_whole)
      show ?thesis
      proof (cases "new2 = []")
        case True
        with n1 n2 b c1 \<open>new1 = [] \<or> \<not> fatal (last new1)\<close> show ?thesis
          by (intro exI[of _ new1]) auto
      next
        case False
        then have "butlast (new1 @ new2) = new1 @ butlast new2" "last (new1 @ new2) = last new2"
          by (simp_all add: butlast_append)
        with n1(1) n2 b c1 False show ?thesis
          by (intro exI[of _ "new1 @ new2"]) auto
      qed
    qed
  qed
qed

lemma orderly_after_silent:
  assumes "silent m" and "\<And>v. orderly Q failed (f v)"
  shows "orderly Q failed (bind_prog m f)"
  using assms
  by (intro orderly_after_call[where bad = "\<lambda>_. False" and P = "\<lambda>_. True"])
     (auto intro: orderly_silent)

lemma orderly_weaken:
  "orderly P failed p \<Longrightarrow> (\<And>r. failed r \<Longrightarrow> failed' r) \<Longrightarrow> (\<And>s. P s \<Longrightarrow> P' s) \<Longrightarrow>
     orderly P' failed' p"
  unfolding orderly_def by (metis (no_types, lifting))

lemma shown_last:
  "printed s = ps @ [l] \<Longrightarrow> prefix glyph_fail l \<Longrightarrow> shown s"
  by (simp add: shown_def)

lemma shown_second_last:
  "printed s = ps @ [l, l2] \<Longrightarrow> prefix glyph_fail l \<Longrightarrow> shown s"
  by (simp add: shown_def)

text \<open>A program that launches exactly one command.\<close>

lemma orderly_single:
  assumes "\<And>s. \<exists>out. spawned (snd (p s)) = spawned s @ [(c, out)] \<and>
             (fatal (c, out) \<longrightarrow> failed (fst (p s)) \<and> P (snd (p s)))"
  shows "orderly P failed p"
  unfolding orderly_def
proof
  fix s
  from assms[of s] obtain out where
    "spawned (snd (p s)) = spawned s @ [(c, out)]"
    "fatal (c, out) \<longrightarrow> failed (fst (p s)) \<and> P (snd (p s))" by blast
  then show "\<exists>new. spawned (snd (p s)) = spawned s @ new \<and> calm (butlast new) \<and>
      (new \<noteq> [] \<and> fatal (last new) \<longrightarrow> failed (fst (p s)) \<and> P (snd (p s)))"
    by (intro exI[of _ "[(c, out)]"]) (simp add: calm_def)
qed

lemma orderly_if:
  "(c \<Longrightarrow> orderly P failed p) \<Longrightarrow> (\<not> c \<Longrightarrow> orderly P failed q) \<Longrightarrow>
     orderly P failed (if c then p else q)"
  by simp

lemma run_command_orderly:
  "orderly shown (\<lambda>r. \<exists>v. r = Inr v \<and> v = None) (run_command ex c d)"
proof (rule orderly_single[where c = "Shell c"])
  fix s :: "'a state"
  obtain out fs' w' where e: "ex (Shell c) (workdir s) (files s, outside s) = (out, (fs', w'))"
    by (metis surj_pair)
  show "\<exists>out. spawned (snd (run_command ex c d s)) = spawned s @ [(Shell c, out)] \<and>
          (fatal (Shell c, out) \<longrightarrow>
             (\<exists>v. fst (run_command ex c d s) = Inr v \<and> v = None) \<and> shown (snd (run_command ex c d s)))"
  proof (cases out)
    case (Completed rc so se)
    with e show ?thesis
      by (intro exI[of _ out])
         (auto simp: run_command_completed intro!: shown_last[where l = "glyph_fail @ '' '' @ d @ '' failed: '' @ se"])
  next
    case (NotLaunched le)
    with e show ?thesis
      by (intro exI[of _ out]) (simp add: run_command_not_launched)
  qed
qed

lemma pip_install_orderly:
  assumes "is_pip_install (Shell c)"
  shows "orderly P (\<lambda>r. False) (run_command ex c d)"
proof (rule orderly_single[where c = "Shell c"])
  fix s :: "'a state"
  obtain out fs' w' where e: "ex (Shell c) (workdir s) (files s, outside s) = (out, (fs', w'))"
    by (metis surj_pair)
  have "\<not> fatal (Shell c, out)"
    using assms by (cases out) (simp_all add: tolerated_def)
  moreover have "spawned (snd (run_command ex c d s)) = spawned s @ [(Shell c, out)]"
    using e by (cases out) (simp_all add: run_command_completed run_command_not_launched)
  ultimately show "\<exists>out. spawned (snd (run_command ex c d s)) = spawned s @ [(Shell c, out)] \<and>
          (fatal (Shell c, out) \<longrightarrow> False \<and> P (snd (run_command ex c d s)))"
    by blast
qed

lemma setup_environment_orderly: "orderly P (\<lambda>r. False) (setup_environment ex py)"
  unfolding setup_environment_def
  apply (rule orderly_after_silent, simp)
  apply (rule orderly_after_silent, simp)
  apply (rule orderly_after_call[where bad = "\<lambda>_. False" and P = P])
    apply (rule orderly_weaken[OF pip_install_orderly[where P = P]])
      apply (simp_all add: is_pip_install_def)
  apply (rule orderly_after_call[where bad = "\<lambda>_. False" and P = P])
    apply (rule orderly_weaken[OF pip_install_orderly[where P = P]])
      apply (simp_all add: is_pip_install_def orderly_silent)
  done

lemma succeeded_not_fatal: "succeeded out \<Longrightarrow> \<not> fatal (c, out)"
  by (cases out) (simp_all add: succeeded_def)

lemma fatal_exited_nonzero: "fatal (c, out) \<Longrightarrow> exited_nonzero out"
  by (cases out) (simp_all add: exited_nonzero_def)

lemma run_steps_orderly:
  "orderly shown (\<lambda>r. \<exists>v. r = Inr v \<and> \<not> v) (run_steps ex steps)"
  unfolding orderly_def
proof
  fix s :: "'a state"
  obtain r s' where run: "run_steps ex steps s = (r, s')" by (cases "run_steps ex steps s")
  from run_steps_trace[OF run] obtain new where
    n: "spawned s' = spawned s @ new"
       "\<forall>out \<in> set (butlast (map snd new)). succeeded out"
       "case r of
        Inr b \<Rightarrow>
          (if b then length new = length steps \<and> (\<forall>out \<in> set (map snd new). succeeded out)
           else new \<noteq> [] \<and> exited_nonzero (snd (last new)) \<and>
                printed s' \<noteq> [] \<and> last (printed s') = glyph_fail @ '' Pipeline failed at: '' @ snd (steps ! (length new - 1)))
      | Inl e \<Rightarrow> new \<noteq> [] \<and> (\<exists>le. snd (last new) = NotLaunched le \<and> e = exn_of_launch le)"
    by blast
  have c: "calm (butlast new)"
    using n(2) succeeded_not_fatal
    by (auto simp: calm_def list_all_iff map_butlast[symmetric])
  have f: "(\<exists>v. r = Inr v \<and> \<not> v) \<and> shown s'" if "new \<noteq> []" "fatal (last new)"
  proof -
    from that(2) have ex: "exited_nonzero (snd (last new))"
      using fatal_exited_nonzero[of "fst (last new)" "snd (last new)"] by simp
    have lastin: "snd (last new) \<in> set (map snd new)"
      using that(1) last_in_set[of new] unfolding set_map by (intro imageI)
    show ?thesis
    proof (cases r)
      case (Inl e)
      with n(3) ex show ?thesis by (auto simp: exited_nonzero_def)
    next
      case (Inr b)
      show ?thesis
      proof (cases b)
        case True
        with Inr n(3) lastin have "succeeded (snd (last new))" by auto
        with ex show ?thesis
          by (cases "snd (last new)") (auto simp: succeeded_def exited_nonzero_def)
      next
        case False
        with Inr n(3) have l: "last (printed s') =
           glyph_fail @ '' Pipeline failed at: '' @ snd (steps ! (length new - 1))"
          and ne: "printed s' \<noteq> []" by simp_all
        from ne have "printed s' = butlast (printed s') @ [last (printed s')]" by simp
        from shown_last[OF this] l have "shown s'" by simp
        with Inr False show ?thesis by auto
      qed
    qed
  qed
  from n(1) c f run show "\<exists>new. spawned (snd (run_steps ex steps s)) = spawned s @ new \<and>
            calm (butlast new) \<and>
            (new \<noteq> [] \<and> fatal (last new) \<longrightarrow>
             (\<exists>v. fst (run_steps ex steps s) = Inr v \<and> \<not> v) \<and> shown (snd (run_steps ex steps s)))"
    by (intro exI[of _ new]) simp
qed


lemma run_dbt_pipeline_orderly:
  "orderly shown (\<lambda>r. \<exists>v. r = Inr v \<and> \<not> v) (run_dbt_pipeline ex)"
  unfolding run_dbt_pipeline_def run_dbt_pipeline_with_def
  apply (rule orderly_after_silent, simp)
  apply (rule orderly_after_silent, simp)
  apply (rule orderly_after_call[where bad = "\<lambda>v. \<not> v" and P = shown])
    apply (rule run_steps_orderly)
   apply (simp add: orderly_silent)
  apply (auto simp: halting_def prog_defs)
  done

lemma main_pipeline_orderly:
  "orderly shown (\<lambda>r. r = Inl (SystemExit 1)) (main_pipeline ex py)"
  unfolding main_pipeline_def
  apply (rule orderly_after_silent, simp)
  apply (rule orderly_after_silent, simp)
  apply (rule orderly_after_silent, simp)
  apply (rule orderly_if)
   apply (simp add: orderly_silent)
  apply (rule orderly_after_call[where bad = "\<lambda>_. False" and P = shown])
    apply (rule orderly_weaken[OF setup_environment_orderly[where P = shown]], simp, simp)
   prefer 2 apply simp
  apply (rule orderly_after_silent, simp)
  apply (rule orderly_if)
   apply (simp add: orderly_silent)
  apply (rule orderly_after_silent, simp)
  apply (rule orderly_after_call[where bad = "\<lambda>v. \<not> v" and P = shown])
    apply (rule run_dbt_pipeline_orderly)
   apply (simp add: orderly_silent)
  apply (simp add: halting_def prog_defs shown_def)
  done

lemma halting_orderly: "halting P Q failed p \<Longrightarrow> orderly Q failed p"
  by (auto simp: halting_def orderly_def calm_def intro!: exI[of _ "[]"])

lemma orderly_spawn:
  fixes h :: "(exn + string option \<times> string option) \<times> 'w state \<Rightarrow> (exn + 'a) \<times> 'w state"
  assumes ok: "\<And>v. orderly Q failed (\<lambda>s. h (Inr v, s))"
    and tol: "\<And>rc so se. rc \<noteq> 0 \<Longrightarrow> tolerated c rc \<Longrightarrow>
                orderly Q failed (\<lambda>s. h (Inl (CalledProcessError rc c so se), s))"
    and stop: "\<And>rc so se. rc \<noteq> 0 \<Longrightarrow> \<not> tolerated c rc \<Longrightarrow>
                halting (\<lambda>_. True) Q failed (\<lambda>s. h (Inl (CalledProcessError rc c so se), s))"
    and missing: "\<And>f. orderly Q failed (\<lambda>s. h (Inl (FileNotFoundError f), s))"
    and other: "\<And>m. orderly Q failed (\<lambda>s. h (Inl (OtherOSError m), s))"
  shows "orderly Q failed (\<lambda>s. h (subprocess_run ex c cap s))"
  unfolding orderly_def
proof
  fix s :: "'w state"
  obtain out fs' w' where e: "ex c (workdir s) (files s, outside s) = (out, (fs', w'))"
    by (metis surj_pair)
  define s1 where "s1 = s\<lparr>files := fs', outside := w', spawned := spawned s @ [(c, out)]\<rparr>"
  have sp1: "spawned s1 = spawned s @ [(c, out)]" by (simp add: s1_def)
  let ?goal = "\<exists>new. spawned (snd (h (subprocess_run ex c cap s))) = spawned s @ new \<and>
             calm (butlast new) \<and>
             (new \<noteq> [] \<and> fatal (last new) \<longrightarrow>
              failed (fst (h (subprocess_run ex c cap s))) \<and> Q (snd (h (subprocess_run ex c cap s))))"
  have cont: ?goal
    if k: "orderly Q failed (\<lambda>s. h (x, s))" and run: "subprocess_run ex c cap s = (x, s1)"
      and nf: "\<not> fatal (c, out)" for x
  proof -
    from k[unfolded orderly_def, rule_format, of s1] obtain new2 where
      n2: "spawned (snd (h (x, s1))) = spawned s1 @ new2" "calm (butlast new2)"
          "new2 \<noteq> [] \<and> fatal (last new2) \<longrightarrow> failed (fst (h (x, s1))) \<and> Q (snd (h (x, s1)))"
      by auto
    show ?thesis
    proof (cases "new2 = []")
      case True
      with n2 sp1 run nf show ?thesis
        by (intro exI[of _ "[(c, out)]"]) (simp add: calm_def)
    next
      case False
      with n2 sp1 run nf show ?thesis
        by (intro exI[of _ "(c, out) # new2"]) (simp add: calm_def)
    qed
  qed
  show ?goal
  proof (cases out)
    case (NotLaunched le)
    with e have "subprocess_run ex c cap s = (Inl (exn_of_launch le), s1)"
      by (simp add: subprocess_run_not_launched s1_def)
    moreover have "orderly Q failed (\<lambda>s. h (Inl (exn_of_launch le), s))"
      using missing other by (cases le) simp_all
    ultimately show ?thesis using cont NotLaunched by simp
  next
    case (Completed rc so se)
    show ?thesis
    proof (cases "rc = 0")
      case True
      with e Completed have "subprocess_run ex c cap s =
          (Inr (if cap then Some so else None, if cap then Some se else None), s1)"
        by (simp add: subprocess_run_completed s1_def)
      from cont[OF ok this] Completed True show ?thesis by simp
    next
      case False
      with e Completed have run: "subprocess_run ex c cap s =
          (Inl (CalledProcessError rc c (if cap then Some so else None) (if cap then Some se else None)), s1)"
        by (simp add: subprocess_run_completed s1_def)
      show ?thesis
      proof (cases "tolerated c rc")
        case True
        from cont[OF tol[OF False True] run] Completed True show ?thesis by simp
      next
        case nt: False
        note st = stop[OF False nt, of "if cap then Some so else None" "if cap then Some se else None"]
        from st[unfolded halting_def, rule_format, of s1]
        have "spawned (snd (h (Inl (CalledProcessError rc c (if cap then Some so else None)
                 (if cap then Some se else None)), s1))) = spawned s1"
          and "failed (fst (h (Inl (CalledProcessError rc c (if cap then Some so else None)
                 (if cap then Some se else None)), s1)))"
          and "Q (snd (h (Inl (CalledProcessError rc c (if cap then Some so else None)
                 (if cap then Some se else None)), s1)))"
          by simp_all
        with run sp1 show ?thesis
          by (intro exI[of _ "[(c, out)]"]) (simp add: calm_def)
      qed
    qed
  qed
qed

lemma str_4: "str_int 4 = ''4''"
  by (simp add: str_int_def str_nat.simps)

lemma create_service_account_key_orderly:
  "orderly shown (\<lambda>r. r = Inr None) (create_service_account_key ex d pid email)"
  unfolding create_service_account_key_def
  apply (rule orderly_after_silent, simp)
  apply (rule orderly_spawn)
     apply (simp add: orderly_silent)
    apply (simp add: orderly_silent)
    apply (simp add: halting_def prog_defs shown_def)
   apply (simp add: orderly_silent silent_def)
  apply (simp add: orderly_silent silent_def)
  done

lemma str_digits: "str_int 2 = ''2''" "str_int 3 = ''3''" "str_int 6 = ''6''" "str_int 7 = ''7''"
  by (simp_all add: str_int_def str_nat.simps)

lemma orderly_if_fun:
  "(c \<Longrightarrow> orderly P failed (\<lambda>s. p s)) \<Longrightarrow> (\<not> c \<Longrightarrow> orderly P failed (\<lambda>s. q s)) \<Longrightarrow>
     orderly P failed (\<lambda>s. if c then p s else q s)"
  by (cases c) simp_all

lemmas command_kinds = tolerated_def is_creation_def is_pip_install_def is_role_binding_def
  is_connection_test_def is_account_query_def argv_starts_def

lemma creation_classified:
  "sublist ''already exists'' (str_exn (CalledProcessError rc (dataset_command pid name) so se))
     \<longleftrightarrow> tolerated (dataset_command pid name) rc"
  "sublist ''already exists'' (str_exn (CalledProcessError rc (create_account_command pid) so se))
     \<longleftrightarrow> tolerated (create_account_command pid) rc"
  by (simp_all add: command_kinds dataset_command_def create_account_command_def)

lemma check_gcloud_installed_orderly:
  "orderly (\<lambda>_. True) (\<lambda>r. r = Inr False) (check_gcloud_installed ex)"
  unfolding check_gcloud_installed_def
  apply (rule orderly_spawn)
  subgoal by (simp add: orderly_silent silent_def)
  subgoal by (simp add: orderly_silent silent_def)
  subgoal by (auto simp: halting_def)
  subgoal by (simp add: orderly_silent silent_def)
  subgoal by (simp add: orderly_silent silent_def)
  done

lemma test_dbt_connection_orderly:
  "orderly P (\<lambda>r. False) (test_dbt_connection ex d)"
  unfolding test_dbt_connection_def
  apply (rule orderly_after_silent, simp)
  apply (rule orderly_after_silent, simp)
  apply (rule orderly_if)
  subgoal by (simp add: orderly_silent)
  apply (rule orderly_spawn)
  subgoal by (simp add: orderly_silent case_prod_beta)
  subgoal by (simp add: orderly_silent)
  subgoal by (simp add: command_kinds)
  subgoal by (simp add: orderly_silent silent_def)
  subgoal by (simp add: orderly_silent silent_def)
  done

lemma ask_user_email_orderly:
  "orderly P (\<lambda>r. False) (ask_user_email ex)"
  unfolding ask_user_email_def
  apply (rule orderly_spawn)
  subgoal by (simp add: orderly_silent silent_def print_def case_prod_beta)
  subgoal by (simp add: orderly_silent)
  subgoal by (simp add: command_kinds)
  subgoal by (simp add: orderly_silent silent_def)
  subgoal by (simp add: orderly_silent silent_def)
  done

lemma email_then_pair_orderly:
  "orderly Q failed
     (bind_prog (ask_user_email ex) (\<lambda>user_email. return_prog (Some (pid, user_email))))"
  apply (rule orderly_after_call[where bad = "\<lambda>_. False" and P = Q])
  subgoal by (rule orderly_weaken[OF ask_user_email_orderly[where P = Q]]) simp_all
  subgoal by (simp add: orderly_silent)
  subgoal by simp
  done

lemma get_project_info_orderly:
  "orderly shown (\<lambda>r. r = Inr None) (get_project_info ex)"
  unfolding get_project_info_def
  apply (rule orderly_after_silent, simp)
  apply (rule orderly_after_silent, simp)
  apply (rule orderly_after_silent, simp)
  apply (rule orderly_if)
  subgoal by (simp add: orderly_silent)
  apply (rule orderly_spawn)
  subgoal by simp (rule orderly_after_silent, simp, rule email_then_pair_orderly)
  subgoal by (simp add: orderly_silent)
  subgoal by (simp add: halting_def prog_defs shown_def)
  subgoal by (simp add: orderly_silent silent_def)
  subgoal by (simp add: orderly_silent silent_def)
  done

lemma create_datasets_orderly:
  "orderly shown (\<lambda>r. r = Inr False) (create_datasets ex pid names)"
proof (induction names)
  case Nil
  show ?case by (simp add: orderly_silent)
next
  case (Cons name rest)
  have again: "orderly shown (\<lambda>r. r = Inr False)
                 (bind_prog (say line) (\<lambda>_. create_datasets ex pid rest))" for line
    by (rule orderly_after_silent, simp) (rule Cons.IH)
  show ?case
    unfolding create_datasets.simps
    apply (rule orderly_spawn)
    subgoal using again by simp
    subgoal using again by (simp add: creation_classified del: str_exn.simps)
    subgoal by (simp add: creation_classified halting_def prog_defs shown_def del: str_exn.simps)
    subgoal by (simp add: orderly_silent silent_def)
    subgoal by (simp add: orderly_silent silent_def)
    done
qed

lemma setup_bigquery_datasets_orderly:
  "orderly shown (\<lambda>r. r = Inr False) (setup_bigquery_datasets ex pid)"
  unfolding setup_bigquery_datasets_def setup_bigquery_datasets_with_def
  by (rule orderly_after_silent, simp) (rule create_datasets_orderly)

lemma assign_roles_orderly:
  "orderly P (\<lambda>r. False) (assign_roles ex pid rs)"
proof (induction rs)
  case Nil
  show ?case by (simp add: orderly_silent)
next
  case (Cons role rest)
  have again: "orderly P (\<lambda>r. False) (bind_prog (say line) (\<lambda>_. assign_roles ex pid rest))" for line
    by (rule orderly_after_silent, simp) (rule Cons.IH)
  show ?case
    unfolding assign_roles.simps
    apply (rule orderly_spawn)
    subgoal using again by simp
    subgoal using again by simp
    subgoal by (simp add: command_kinds role_command_def)
    subgoal by (simp add: orderly_silent silent_def)
    subgoal by (simp add: orderly_silent silent_def)
    done
qed

lemma roles_then_email_orderly:
  "orderly Q failed
     (bind_prog (say line)
        (\<lambda>_. bind_prog (assign_roles ex pid rs) (\<lambda>_. return_prog (Some (service_account_email pid)))))"
  apply (rule orderly_after_silent, simp)
  apply (rule orderly_after_call[where bad = "\<lambda>_. False" and P = Q])
  subgoal by (rule orderly_weaken[OF assign_roles_orderly[where P = Q]]) simp_all
  subgoal by (simp add: orderly_silent)
  subgoal by simp
  done

lemma create_service_account_orderly:
  "orderly shown (\<lambda>r. r = Inr None) (create_service_account ex pid)"
  unfolding create_service_account_def create_service_account_with_def
  apply (rule orderly_after_silent, simp)
  apply (rule orderly_spawn)
  subgoal by (simp add: roles_then_email_orderly)
  subgoal by (simp add: creation_classified roles_then_email_orderly del: str_exn.simps)
  subgoal by (simp add: creation_classified halting_def prog_defs shown_def del: str_exn.simps)
  subgoal by (simp add: orderly_silent silent_def)
  subgoal by (simp add: orderly_silent silent_def)
  done

lemma as_bad: "orderly P (\<lambda>r. r = Inr x) m \<Longrightarrow> orderly P (\<lambda>r. \<exists>v. r = Inr v \<and> v = x) m"
  by simp

lemma never_bad: "orderly P (\<lambda>r. False) m \<Longrightarrow> orderly P (\<lambda>r. \<exists>v. r = Inr v \<and> False) m"
  by simp

lemma main_gcp_orderly:
  "orderly shown (\<lambda>r. r = Inr False) (main_gcp ex d)"
  unfolding main_gcp_def
  apply (rule orderly_after_silent, simp)
  apply (rule orderly_after_silent, simp)
  apply (rule orderly_after_call[OF as_bad[OF check_gcloud_installed_orderly]])
   prefer 2 apply (simp add: halting_def prog_defs shown_def)
  apply simp
  apply (rule orderly_after_call[OF as_bad[OF get_project_info_orderly]])
   prefer 2 apply (simp add: halting_def prog_defs)
  apply (clarsimp simp: orderly_silent)
  apply (rule orderly_after_call[OF as_bad[OF setup_bigquery_datasets_orderly]])
   prefer 2 apply (simp add: halting_def prog_defs)
  apply simp
  apply (rule orderly_after_call[OF as_bad[OF create_service_account_orderly]])
   prefer 2 apply (simp add: halting_def prog_defs)
  apply (clarsimp simp: orderly_silent)
  apply (rule orderly_after_call[OF as_bad[OF create_service_account_key_orderly]])
   prefer 2 apply (simp add: halting_def prog_defs)
  apply (clarsimp simp: orderly_silent)
  apply (rule orderly_after_silent, simp)
  apply (rule orderly_if)
   apply (simp add: orderly_silent)
  apply (rule orderly_after_call[OF never_bad[OF test_dbt_connection_orderly[where P = shown]]])
   prefer 2 apply simp
  apply (simp add: orderly_silent)
  done

lemma last_fatal_only:
  assumes "calm (butlast new)" "i < length new" "fatal (new ! i)"
  shows "Suc i = length new \<and> new \<noteq> [] \<and> fatal (last new)"
proof -
  have "\<not> i < length (butlast new)"
  proof
    assume "i < length (butlast new)"
    then have "butlast new ! i \<in> set (butlast new)" by (rule nth_mem)
    moreover have "butlast new ! i = new ! i"
      using \<open>i < length (butlast new)\<close> by (rule nth_butlast)
    ultimately show False using assms(1,3) by (auto simp: calm_def list_all_iff)
  qed
  with assms(2) have "Suc i = length new" by simp
  moreover from assms(2) have "new \<noteq> []" by auto
  moreover from this \<open>Suc i = length new\<close> have "last new = new ! i"
    by (metis diff_Suc_1 last_conv_nth)
  ultimately show ?thesis using assms(3) by simp
qed

text \<open>
  C5, as stated, fails: \<open>setup_environment\<close> does not look at the result of its two
  installation commands. Here the first one ends with status 1; the run goes on through
  all five pipeline steps and the process ends with status 0.
\<close>

theorem pip_failure_does_not_stop_the_run:
  "fst (script_pipeline pip_fails in_venv ready_world) = 0 \<and>
   spawned (snd (script_pipeline pip_fails in_venv ready_world)) =
     [(Shell ''pip install dbt-bigquery'', Completed 1 [] ''no network''),
      (Shell ''pip install requests'', Completed 0 [] []),
      (Shell ''dbt deps'', Completed 0 [] []),
      (Shell ''dbt seed'', Completed 0 [] []),
      (Shell ''dbt run'', Completed 0 [] []),
      (Shell ''dbt test'', Completed 0 [] []),
      (Shell ''dbt docs generate'', Completed 0 [] [])]"
  by (simp add: script_pipeline_def main_pipeline_def setup_environment_def validate_dbt_project_def
        download_sample_data_def run_dbt_pipeline_def run_dbt_pipeline_with_def commands_def
        os_chdir_def path_exists_def node_at_def prog_defs run_command_def subprocess_run_def
        pip_fails_def failing_def in_venv_def ready_world_def blank_def)

text \<open>
  C5, amended. In a run of \<^verbatim>\<open>setup_pipeline.py\<close> or of \<^verbatim>\<open>setup_gcp_looker.py\<close>, a
  command that ended with a non-zero status and is not one of the tolerated kinds (an
  installation command of \<open>setup_environment\<close>, a role binding, the connection test, the
  active-account query, a creation command whose exception text holds
  \<^verbatim>\<open>already exists\<close>) is the last command the run launches; the process then ends with
  status 1 and one of the last two lines printed is a failure message.
\<close>

theorem fatal_exit_ends_the_run:
  "(spawned s = [] \<longrightarrow>
     (\<forall>i < length (spawned (snd (script_pipeline ex py s))).
        fatal (spawned (snd (script_pipeline ex py s)) ! i) \<longrightarrow>
          Suc i = length (spawned (snd (script_pipeline ex py s))) \<and>
          fst (script_pipeline ex py s) = 1 \<and>
          shown (snd (script_pipeline ex py s)))) \<and>
   (spawned s = [] \<longrightarrow>
     (\<forall>i < length (spawned (snd (script_gcp ex d s))).
        fatal (spawned (snd (script_gcp ex d s)) ! i) \<longrightarrow>
          Suc i = length (spawned (snd (script_gcp ex d s))) \<and>
          fst (script_gcp ex d s) = 1 \<and>
          shown (snd (script_gcp ex d s))))"
proof -
  have pipeline: "Suc i = length (spawned (snd (script_pipeline ex py s))) \<and>
          fst (script_pipeline ex py s) = 1 \<and> shown (snd (script_pipeline ex py s))"
    if fresh: "spawned s = []"
      and i: "i < length (spawned (snd (script_pipeline ex py s)))"
      and f: "fatal (spawned (snd (script_pipeline ex py s)) ! i)" for i
  proof -
    obtain r s' where m: "main_pipeline ex py s = (r, s')" by (cases "main_pipeline ex py s")
    have st: "snd (script_pipeline ex py s) = s'"
      using m by (auto simp: script_pipeline_def split: sum.splits exn.splits)
    from main_pipeline_orderly[unfolded orderly_def, rule_format, of ex py s] m fresh
    have c: "calm (butlast (spawned s'))"
      and l: "spawned s' \<noteq> [] \<and> fatal (last (spawned s')) \<longrightarrow> r = Inl (SystemExit 1) \<and> shown s'"
      by auto
    from last_fatal_only[OF c] i f st
    have e: "Suc i = length (spawned s')" "spawned s' \<noteq> []" "fatal (last (spawned s'))" by auto
    with l have "r = Inl (SystemExit 1)" "shown s'" by auto
    with m e st show ?thesis by (simp add: script_pipeline_def)
  qed
  have gcp: "Suc i = length (spawned (snd (script_gcp ex d s))) \<and>
          fst (script_gcp ex d s) = 1 \<and> shown (snd (script_gcp ex d s))"
    if fresh: "spawned s = []"
      and i: "i < length (spawned (snd (script_gcp ex d s)))"
      and f: "fatal (spawned (snd (script_gcp ex d s)) ! i)" for i
  proof -
    obtain r s' where m: "main_gcp ex d s = (r, s')" by (cases "main_gcp ex d s")
    have sp: "spawned (snd (script_gcp ex d s)) = spawned s'"
      using m by (auto simp: script_gcp_def print_def split: sum.splits exn.splits)
    from main_gcp_orderly[unfolded orderly_def, rule_format, of ex d s] m fresh
    have c: "calm (butlast (spawned s'))"
      and l: "spawned s' \<noteq> [] \<and> fatal (last (spawned s')) \<longrightarrow> r = Inr False \<and> shown s'"
      by auto
    from last_fatal_only[OF c] i f sp
    have e: "Suc i = length (spawned s')" "spawned s' \<noteq> []" "fatal (last (spawned s'))" by auto
    with l have "r = Inr False" "shown s'" by auto
    with m e sp show ?thesis by (simp add: script_gcp_def)
  qed
  from pipeline gcp show ?thesis by blast
qed

lemma model_fails_run:
  "fst (script_pipeline model_fails in_venv ready_world) = 1"
  "spawned (snd (script_pipeline model_fails in_venv ready_world)) =
     [(Shell ''pip install dbt-bigquery'', Completed 0 [] []),
      (Shell ''pip install requests'', Completed 0 [] []),
      (Shell ''dbt deps'', Completed 0 [] []),
      (Shell ''dbt seed'', Completed 0 [] []),
      (Shell ''dbt run'', Completed 2 [] ''model error'')]"
  by (simp_all add: script_pipeline_def main_pipeline_def setup_environment_def validate_dbt_project_def
        download_sample_data_def run_dbt_pipeline_def run_dbt_pipeline_with_def commands_def
        os_chdir_def path_exists_def node_at_def prog_defs run_command_def subprocess_run_def
        model_fails_def failing_def in_venv_def ready_world_def blank_def)

lemma strip_acme: "py_strip ''acme'' = ''acme''" "py_strip [] = []"
  by (simp_all add: py_strip_def py_isspace_def)

lemma key_denied_run:
  "fst (script_gcp key_denied ''.'' (blank\<lparr>keyboard := [''acme'']\<rparr>)) = 1"
  "spawned (snd (script_gcp key_denied ''.'' (blank\<lparr>keyboard := [''acme'']\<rparr>))) =
     [(Argv [''gcloud'', ''--version''], Completed 0 [] []),
      (Argv [''gcloud'', ''projects'', ''describe'', ''acme''], Completed 0 [] []),
      (Argv [''gcloud'', ''auth'', ''list'', ''--filter=status:ACTIVE'', ''--format=value(account)''],
       Completed 0 [] []),
      (dataset_command ''acme'' ''healthcare_data_dev'', Completed 0 [] []),
      (dataset_command ''acme'' ''healthcare_data_prod'', Completed 0 [] []),
      (create_account_command ''acme'', Completed 0 [] []),
      (role_command ''acme'' ''roles/bigquery.dataEditor'', Completed 0 [] []),
      (role_command ''acme'' ''roles/bigquery.jobUser'', Completed 0 [] []),
      (role_command ''acme'' ''roles/bigquery.dataViewer'', Completed 0 [] []),
      (role_command ''acme'' ''roles/bigquery.connectionUser'', Completed 0 [] []),
      (Argv [''gcloud'', ''iam'', ''service-accounts'', ''keys'', ''create'',
             ''dbt-service-account-key.json'',
             ''--iam-account=dbt-healthcare-service@acme.iam.gserviceaccount.com''],
       Completed 1 [] ''permission denied'')]"
  by (simp_all add: script_gcp_def main_gcp_def check_gcloud_installed_def get_project_info_def
        ask_user_email_def input_def setup_bigquery_datasets_def setup_bigquery_datasets_with_def
        datasets_def create_service_account_def create_service_account_with_def roles_def
        create_service_account_key_def print_step_def path_join_def strip_acme
        dataset_command_def create_account_command_def role_command_def
        service_account_email_def service_account_name_def
        prog_defs subprocess_run_def key_denied_def failing_def blank_def
        del: str_exn.simps)

theorem fatal_exit_ends_the_run_witness:
  "spawned ready_world = [] \<and>
   fatal (spawned (snd (script_pipeline model_fails in_venv ready_world)) ! 4) \<and>
   Suc 4 = length (spawned (snd (script_pipeline model_fails in_venv ready_world))) \<and>
   fst (script_pipeline model_fails in_venv ready_world) = 1 \<and>
   shown (snd (script_pipeline model_fails in_venv ready_world)) \<and>
   spawned (blank\<lparr>keyboard := [''acme'']\<rparr>) = [] \<and>
   fatal (spawned (snd (script_gcp key_denied ''.'' (blank\<lparr>keyboard := [''acme'']\<rparr>))) ! 10) \<and>
   Suc 10 = length (spawned (snd (script_gcp key_denied ''.'' (blank\<lparr>keyboard := [''acme'']\<rparr>)))) \<and>
   fst (script_gcp key_denied ''.'' (blank\<lparr>keyboard := [''acme'']\<rparr>)) = 1 \<and>
   shown (snd (script_gcp key_denied ''.'' (blank\<lparr>keyboard := [''acme'']\<rparr>)))"
proof -
  define A where "A = script_pipeline model_fails in_venv ready_world"
  define B where "B = script_gcp key_denied ''.'' (blank\<lparr>keyboard := [''acme'']\<rparr>)"
  have a0: "spawned ready_world = []" by (simp add: ready_world_def blank_def)
  have b0: "spawned (blank\<lparr>keyboard := [''acme'']\<rparr>) = []" by (simp add: blank_def)
  have a1: "4 < length (spawned (snd A))" and a2: "fatal (spawned (snd A) ! 4)"
    and a3: "Suc 4 = length (spawned (snd A))"
    unfolding A_def by (simp_all add: model_fails_run command_kinds)
  have b1: "10 < length (spawned (snd B))" and b2: "fatal (spawned (snd B) ! 10)"
    and b3: "Suc 10 = length (spawned (snd B))"
    unfolding B_def by (simp_all add: key_denied_run command_kinds)
  from fatal_exit_ends_the_run[of ready_world model_fails in_venv "''.''"] a0 a1 a2
  have a: "fst A = 1 \<and> shown (snd A)"
    unfolding A_def by blast
  from fatal_exit_ends_the_run[of "blank\<lparr>keyboard := [''acme'']\<rparr>" key_denied in_venv "''.''"] b0 b1 b2
  have b: "fst B = 1 \<and> shown (snd B)"
    unfolding B_def by blast
  from a0 a2 a3 a b0 b2 b3 b show ?thesis
    unfolding A_def B_def by (intro conjI) simp_all
qed

end
